theory Spec2Isabelle
  imports Main "HOL-Library.FSet" "HOL-Library.AList"
begin

section \<open>Data model of the room server (stserver.js)\<close>

text \<open>
  The socket handlers of \<^verbatim>\<open>io.on('connection', ...)\<close> mutate two global JavaScript
  \<^verbatim>\<open>Map\<close>s, \<^verbatim>\<open>rooms\<close> and \<^verbatim>\<open>musicRooms\<close>, and three variables of the closure of each
  connection (\<^verbatim>\<open>currentUser\<close>, \<^verbatim>\<open>currentRoom\<close>, \<^verbatim>\<open>currentMusicRoom\<close>). A \<^verbatim>\<open>Map\<close> is
  an association list in insertion order (\<open>map_of\<close> is \<^verbatim>\<open>get\<close>, \<open>AList.update\<close> is
  \<^verbatim>\<open>set\<close>, \<open>AList.map_entry\<close> is a mutation of the object stored under a key); a
  \<^verbatim>\<open>Set\<close> of socket ids is a finite set. A handler is a function from the closure
  variables and the store to the new ones, together with the list of calls it makes on
  the socket (emits, joins, leaves), in the order of the source.

  The numbers of a payload (a capacity, a time stamp) are any numbers that JSON
  carries; the clock (\<^verbatim>\<open>Date.now()\<close>, \<^verbatim>\<open>new Date().toISOString()\<close>) and the random
  suffix of a generated id are inputs of the handler that reads them, one reading per
  invocation.
\<close>

type_synonym sid = string

text \<open>A number of a payload. JSON carries finite doubles only, and a finite double is
  taken as the rational that it denotes; comparing it with the size of a set is exact.\<close>

type_synonym number = rat

record file_data =
  filename :: string
  originalname :: string
  fd_size :: number
  url :: string

record chat_message =
  msg_id :: string
  username :: string
  message :: "string option"
  fileData :: "file_data option"
  timestamp :: string
  isPrevious :: bool

record chat_room =
  name :: string
  users :: "sid fset"
  messages :: "chat_message list"
  maxUsers :: "number option"
  password :: "string option"
  creator :: string
  createdAt :: int

record conn =
  currentUser :: string
  currentRoom :: string
  currentMusicRoom :: string

record env =
  now :: int
  rnd :: string
  iso :: string

text \<open>The messages of \<^verbatim>\<open>'room join error'\<close> and \<^verbatim>\<open>'delete error'\<close>, named by their meaning;
  the full-room message carries \<^verbatim>\<open>room.maxUsers\<close>.\<close>

datatype join_error = Room_exists | Room_not_found | Wrong_password | Room_full number

datatype delete_error = Not_authorized | Message_not_found | Not_author

record room_info =
  ri_name :: string
  ri_userCount :: nat
  ri_maxUsers :: "number option"
  ri_hasPassword :: bool
  ri_creator :: string
  ri_lastMessage :: "string option"
  ri_lastMessageTime :: "string + int"

record track =
  track_id :: string
  title :: string
  t_filename :: string
  t_originalname :: string
  t_url :: string
  uploader :: string
  uploadTime :: int
  duration :: string
  votes :: int
  voters :: "sid fset"

text \<open>The three shapes of an entry of \<^verbatim>\<open>room.messages\<close> of a music room (text, voice,
  system) in one record; a key that a shape does not have is \<open>None\<close>.\<close>

record music_message =
  mm_id :: string
  mm_roomId :: "string option"
  mm_type :: "string option"
  mm_user :: string
  mm_message :: "string option"
  mm_timestamp :: number
  mm_audioUrl :: "string option"
  mm_time :: string
  mm_isPrevious :: "bool option"

record music_room =
  m_id :: string
  m_name :: string
  m_description :: string
  m_users :: "sid fset"
  m_maxUsers :: number
  m_creator :: string
  m_genres :: "string list"
  playlist :: "track list"
  currentTrack :: "track option"
  currentTrackIndex :: nat
  isPlaying :: bool
  playStartTime :: "int option"
  m_messages :: "music_message list"
  m_votes :: "(string \<times> int) list"
  m_createdAt :: int

datatype music_join_error = Music_room_exists | Music_room_not_found | Music_room_full number

record music_room_info =
  mi_id :: string
  mi_name :: string
  mi_description :: string
  mi_participants :: nat
  mi_musicCount :: nat
  mi_maxUsers :: number
  mi_status :: string
  mi_creator :: string
  mi_genres :: "string list"
  mi_currentTrack :: "track option"
  mi_isPlaying :: "bool option"
  mi_createdAt :: int

record music_join_info =
  mj_roomId :: string
  mj_roomName :: string
  mj_userCount :: nat
  mj_maxUsers :: number
  mj_currentTrack :: "track option"
  mj_isPlaying :: bool
  mj_playlist :: "track list"

subsection \<open>JavaScript truthiness and small library functions\<close>

fun truthy_str :: "string option \<Rightarrow> bool" where
  "truthy_str None = False"
| "truthy_str (Some s) = (s \<noteq> [])"

fun truthy_num :: "number option \<Rightarrow> bool" where
  "truthy_num None = False"
| "truthy_num (Some n) = (n \<noteq> 0)"

text \<open>\<^verbatim>\<open>x || null\<close>.\<close>

definition or_null_str :: "string option \<Rightarrow> string option" where
  "or_null_str p = (if truthy_str p then p else None)"

definition or_null_num :: "number option \<Rightarrow> number option" where
  "or_null_num n = (if truthy_num n then n else None)"

text \<open>\<^verbatim>\<open>Array.prototype.findIndex\<close>; \<open>None\<close> is the result \<^verbatim>\<open>-1\<close>.\<close>

fun findIndex :: "('a \<Rightarrow> bool) \<Rightarrow> 'a list \<Rightarrow> nat option" where
  "findIndex P [] = None"
| "findIndex P (x # xs) =
     (if P x then Some 0 else map_option Suc (findIndex P xs))"

text \<open>\<^verbatim>\<open>xs.splice(i, 1)\<close>, for an index inside the array.\<close>

definition splice1 :: "nat \<Rightarrow> 'a list \<Rightarrow> 'a list" where
  "splice1 i xs = take i xs @ drop (Suc i) xs"

text \<open>\<^verbatim>\<open>xs.slice(-100)\<close>.\<close>

definition slice_last :: "nat \<Rightarrow> 'a list \<Rightarrow> 'a list" where
  "slice_last n xs = drop (length xs - n) xs"

text \<open>The decimal numeral of a number, as string concatenation renders it.\<close>

fun digit_char :: "nat \<Rightarrow> char" where
  "digit_char n = char_of (48 + n)"

function show_nat :: "nat \<Rightarrow> string" where
  "show_nat n = (if n < 10 then [digit_char n] else show_nat (n div 10) @ [digit_char (n mod 10)])"
  by pat_completeness auto
termination
  by (relation "measure id") auto

definition show_int :: "int \<Rightarrow> string" where
  "show_int i = (if i < 0 then CHR ''-'' # show_nat (nat (- i)) else show_nat (nat i))"

text \<open>\<^verbatim>\<open>Date.now() + '_' + Math.random().toString(36).substr(2, 9)\<close>.\<close>

definition gen_id :: "env \<Rightarrow> string" where
  "gen_id e = show_int (now e) @ ''_'' @ rnd e"

subsection \<open>What a handler does on the socket\<close>

datatype event =
    Test_message
  | Room_list "room_info list"
  | Room_created string "number option" bool
  | Room_join_error join_error
  | Room_join_success string nat "number option"
  | User_left_room string nat
  | User_joined_room string nat
  | Room_user_count nat "number option"
  | Chat_message_ev chat_message
  | Delete_error delete_error
  | Message_deleted string
  | Delete_success string
  | Music_room_list "music_room_info list"
  | Music_room_created music_room_info
  | Music_room_list_update
  | Music_room_join_error music_join_error
  | Music_room_join_success music_join_info
  | Music_room_user_left string nat
  | Music_room_user_joined string nat
  | Music_chat_message_ev music_message
  | Playlist_update "track list" "track option" bool
  | Track_changed track bool int
  | Playback_toggled bool "int option"

text \<open>
  \<open>Socket_emit\<close> is \<^verbatim>\<open>socket.emit\<close> (to the requester only), \<open>Socket_to\<close> is
  \<^verbatim>\<open>socket.to(room).emit\<close> (the channel of the room, the requester excluded), \<open>Io_to\<close> is
  \<^verbatim>\<open>io.to(room).emit\<close> (the whole channel), \<open>Socket_broadcast\<close> is
  \<^verbatim>\<open>socket.broadcast.emit\<close>; \<open>Fs_unlink_upload f\<close> is the \<^verbatim>\<open>fs.unlink\<close> of the file \<open>f\<close>
  of the upload directory.
\<close>

datatype 'e action =
    Socket_emit 'e
  | Socket_to string 'e
  | Io_to string 'e
  | Socket_broadcast 'e
  | Socket_join string
  | Socket_leave string
  | Fs_unlink_upload string

type_synonym room_store = "(string \<times> chat_room) list"

definition users_size :: "room_store \<Rightarrow> string \<Rightarrow> nat" where
  "users_size rs k = (case map_of rs k of None \<Rightarrow> 0 | Some r \<Rightarrow> fcard (users r))"

definition users_delete :: "sid \<Rightarrow> chat_room \<Rightarrow> chat_room" where
  "users_delete s r = r\<lparr>users := users r |-| {|s|}\<rparr>"

definition users_add :: "sid \<Rightarrow> chat_room \<Rightarrow> chat_room" where
  "users_add s r = r\<lparr>users := finsert s (users r)\<rparr>"

section \<open>The chat-room handlers\<close>

definition user_join :: "conn \<Rightarrow> string \<Rightarrow> conn \<times> event action list" where
  "user_join c uname = (c\<lparr>currentUser := uname\<rparr>, [Socket_emit Test_message])"

definition room_entry :: "chat_room \<Rightarrow> room_info" where
  "room_entry room =
     \<lparr>ri_name = name room,
      ri_userCount = fcard (users room),
      ri_maxUsers = maxUsers room,
      ri_hasPassword = truthy_str (password room),
      ri_creator = creator room,
      ri_lastMessage = (if length (messages room) > 0 then message (last (messages room)) else None),
      ri_lastMessageTime = (if length (messages room) > 0 then Inl (timestamp (last (messages room)))
                            else Inr (createdAt room))\<rparr>"

definition get_room_list :: "room_store \<Rightarrow> event action list" where
  "get_room_list rs = [Socket_emit (Room_list (map (\<lambda>(k, room). room_entry room) rs))]"

definition create_room ::
  "conn \<Rightarrow> env \<Rightarrow> string \<Rightarrow> number option \<Rightarrow> string option \<Rightarrow> room_store \<Rightarrow> room_store \<times> event action list" where
  "create_room c e roomName maxU pw rs =
     (if map_of rs roomName = None then
        (AList.update roomName
           \<lparr>name = roomName, users = {||}, messages = [], maxUsers = or_null_num maxU,
            password = or_null_str pw, creator = currentUser c, createdAt = now e\<rparr> rs,
         [Socket_emit (Room_created roomName maxU (truthy_str pw))])
      else (rs, [Socket_emit (Room_join_error Room_exists)]))"

text \<open>The part of \<^verbatim>\<open>'join room'\<close> that leaves the room named by \<^verbatim>\<open>currentRoom\<close>.\<close>

definition leave_previous :: "sid \<Rightarrow> conn \<Rightarrow> room_store \<Rightarrow> room_store \<times> event action list" where
  "leave_previous s c rs =
     (if currentRoom c \<noteq> [] then
        (case map_of rs (currentRoom c) of
           None \<Rightarrow> (rs, [])
         | Some prevRoom \<Rightarrow>
             (let rs1 = AList.map_entry (currentRoom c) (users_delete s) rs
              in (rs1, [Socket_leave (currentRoom c),
                        Socket_to (currentRoom c)
                          (User_left_room (currentUser c) (users_size rs1 (currentRoom c)))])))
      else (rs, []))"

definition join_room ::
  "sid \<Rightarrow> conn \<Rightarrow> string \<Rightarrow> string option \<Rightarrow> room_store \<Rightarrow> conn \<times> room_store \<times> event action list" where
  "join_room s c roomName pw rs =
     (case map_of rs roomName of
        None \<Rightarrow> (c, rs, [Socket_emit (Room_join_error Room_not_found)])
      | Some room \<Rightarrow>
          if truthy_str (password room) \<and> creator room \<noteq> currentUser c
             \<and> (\<not> truthy_str pw \<or> pw \<noteq> password room)
          then (c, rs, [Socket_emit (Room_join_error Wrong_password)])
          else if truthy_num (maxUsers room) \<and> of_nat (fcard (users room)) \<ge> the (maxUsers room)
          then (c, rs, [Socket_emit (Room_join_error (Room_full (the (maxUsers room))))])
          else
            (let (rs1, out1) = leave_previous s c rs;
                 rs2 = AList.map_entry roomName (users_add s) rs1;
                 n = users_size rs2 roomName
             in (c\<lparr>currentRoom := roomName\<rparr>, rs2,
                 out1 @
                 [Socket_join roomName,
                  Socket_emit (Room_join_success roomName n (maxUsers room)),
                  Socket_to roomName (User_joined_room (currentUser c) n),
                  Socket_emit (Room_user_count n (maxUsers room))] @
                 map (\<lambda>m. Socket_emit (Chat_message_ev (m\<lparr>isPrevious := True\<rparr>))) (messages room))))"

definition leave_room ::
  "sid \<Rightarrow> conn \<Rightarrow> string \<Rightarrow> room_store \<Rightarrow> conn \<times> room_store \<times> event action list" where
  "leave_room s c roomName rs =
     (let (rs1, out) =
        (case map_of rs roomName of
           None \<Rightarrow> (rs, [])
         | Some room \<Rightarrow>
             if s |\<in>| users room then
               (let rs1 = AList.map_entry roomName (users_delete s) rs
                in (rs1, [Socket_leave roomName,
                          Socket_to roomName (User_left_room (currentUser c) (users_size rs1 roomName))]))
             else (rs, []))
      in (c\<lparr>currentRoom := []\<rparr>, rs1, out))"

definition push_message :: "chat_message \<Rightarrow> chat_room \<Rightarrow> chat_room" where
  "push_message m r =
     (let ms = messages r @ [m]
      in r\<lparr>messages := (if length ms > 100 then slice_last 100 ms else ms)\<rparr>)"

definition chat_message_h ::
  "sid \<Rightarrow> conn \<Rightarrow> env \<Rightarrow> string \<Rightarrow> string option \<Rightarrow> file_data option \<Rightarrow> room_store
     \<Rightarrow> room_store \<times> event action list" where
  "chat_message_h s c e roomName msg fd rs =
     (case map_of rs roomName of
        None \<Rightarrow> (rs, [])
      | Some room \<Rightarrow>
          if s |\<in>| users room then
            (let messageData =
                   \<lparr>msg_id = gen_id e, username = currentUser c, message = msg, fileData = fd,
                    timestamp = iso e, isPrevious = False\<rparr>
             in (AList.map_entry roomName (push_message messageData) rs,
                 [Io_to roomName (Chat_message_ev messageData)]))
          else (rs, []))"

definition delete_message ::
  "sid \<Rightarrow> conn \<Rightarrow> string \<Rightarrow> string \<Rightarrow> room_store \<Rightarrow> room_store \<times> event action list" where
  "delete_message s c roomName messageId rs =
     (case map_of rs roomName of
        None \<Rightarrow> (rs, [Socket_emit (Delete_error Not_authorized)])
      | Some room \<Rightarrow>
          if \<not> s |\<in>| users room then (rs, [Socket_emit (Delete_error Not_authorized)])
          else
            (case findIndex (\<lambda>m. msg_id m = messageId) (messages room) of
               None \<Rightarrow> (rs, [Socket_emit (Delete_error Message_not_found)])
             | Some messageIndex \<Rightarrow>
                 (let m = messages room ! messageIndex
                  in if username m \<noteq> currentUser c
                     then (rs, [Socket_emit (Delete_error Not_author)])
                     else
                       (AList.map_entry roomName
                          (\<lambda>r. r\<lparr>messages := splice1 messageIndex (messages r)\<rparr>) rs,
                        (case fileData m of
                           None \<Rightarrow> []
                         | Some f \<Rightarrow> if filename f \<noteq> [] then [Fs_unlink_upload (filename f)] else []) @
                        [Io_to roomName (Message_deleted messageId),
                         Socket_emit (Delete_success messageId)]))))"

section \<open>The music-room handlers\<close>

type_synonym music_store = "(string \<times> music_room) list"

definition m_users_size :: "music_store \<Rightarrow> string \<Rightarrow> nat" where
  "m_users_size ms k = (case map_of ms k of None \<Rightarrow> 0 | Some r \<Rightarrow> fcard (m_users r))"

definition m_users_delete :: "sid \<Rightarrow> music_room \<Rightarrow> music_room" where
  "m_users_delete s r = r\<lparr>m_users := m_users r |-| {|s|}\<rparr>"

definition m_users_add :: "sid \<Rightarrow> music_room \<Rightarrow> music_room" where
  "m_users_add s r = r\<lparr>m_users := finsert s (m_users r)\<rparr>"

text \<open>\<^verbatim>\<open>toLowerCase\<close> and the class \<^verbatim>\<open>\s\<close>, on the ASCII part of a string.\<close>

definition to_lower :: "char \<Rightarrow> char" where
  "to_lower ch =
     (if 65 \<le> (of_char ch :: nat) \<and> (of_char ch :: nat) \<le> 90
      then char_of ((of_char ch :: nat) + 32) else ch)"

definition is_space :: "char \<Rightarrow> bool" where
  "is_space ch = ((of_char ch :: nat) \<in> {9, 10, 11, 12, 13, 32})"

text \<open>\<^verbatim>\<open>str.replace(/\s+/g, '-')\<close>: every maximal run of white space becomes one dash.\<close>

function replace_spaces :: "string \<Rightarrow> string" where
  "replace_spaces [] = []"
| "replace_spaces (ch # cs) =
     (if is_space ch then CHR ''-'' # replace_spaces (dropWhile is_space cs)
      else ch # replace_spaces cs)"
  by pat_completeness auto
termination
  by (relation "measure length") (auto simp: length_dropWhile_le less_Suc_eq_le)

definition music_room_id :: "string \<Rightarrow> int \<Rightarrow> string" where
  "music_room_id roomName t = replace_spaces (map to_lower roomName) @ ''-'' @ show_int t"

text \<open>\<^verbatim>\<open>name.replace(/\.[^/.]+$/, "")\<close>: a last dot followed by one or more characters
  other than a slash, up to the end of the string, is cut off with what follows it.\<close>

definition strip_ext :: "string \<Rightarrow> string" where
  "strip_ext s =
     (let ext = rev (takeWhile (\<lambda>ch. ch \<noteq> CHR ''.'') (rev s))
      in if length ext < length s \<and> ext \<noteq> [] \<and> CHR ''/'' \<notin> set ext
         then take (length s - length ext - 1) s else s)"

definition music_room_entry :: "music_room \<Rightarrow> music_room_info" where
  "music_room_entry room =
     \<lparr>mi_id = m_id room, mi_name = m_name room, mi_description = m_description room,
      mi_participants = fcard (m_users room), mi_musicCount = length (playlist room),
      mi_maxUsers = m_maxUsers room,
      mi_status = (if fcard (m_users room) > 0 then ''active'' else ''inactive''),
      mi_creator = m_creator room, mi_genres = m_genres room,
      mi_currentTrack = currentTrack room, mi_isPlaying = Some (isPlaying room),
      mi_createdAt = m_createdAt room\<rparr>"

definition get_music_room_list :: "music_store \<Rightarrow> event action list" where
  "get_music_room_list ms = [Socket_emit (Music_room_list (map (\<lambda>(k, room). music_room_entry room) ms))]"

definition create_music_room ::
  "conn \<Rightarrow> env \<Rightarrow> string \<Rightarrow> string option \<Rightarrow> number option \<Rightarrow> string list option \<Rightarrow> music_store
     \<Rightarrow> music_store \<times> event action list" where
  "create_music_room c e roomName descr maxU gen ms =
     (let roomId = music_room_id roomName (now e)
      in if map_of ms roomId = None then
           (let newRoom =
                  \<lparr>m_id = roomId, m_name = roomName,
                   m_description = (if truthy_str descr then the descr else ''Collaborative music workspace''),
                   m_users = {||},
                   m_maxUsers = (if truthy_num maxU then the maxU else 10),
                   m_creator = currentUser c,
                   m_genres = (case gen of None \<Rightarrow> [''Electronic'', ''Hip-Hop'', ''Rock''] | Some g \<Rightarrow> g),
                   playlist = [], currentTrack = None, currentTrackIndex = 0, isPlaying = False,
                   playStartTime = None, m_messages = [], m_votes = [], m_createdAt = now e\<rparr>;
                ms1 = AList.update roomId newRoom ms
            in (ms1,
                [Socket_emit (Music_room_created
                   \<lparr>mi_id = roomId, mi_name = roomName, mi_description = m_description newRoom,
                    mi_participants = 0, mi_musicCount = 0,
                    mi_maxUsers = (if truthy_num maxU then the maxU else 10),
                    mi_status = ''active'', mi_creator = currentUser c, mi_genres = m_genres newRoom,
                    mi_currentTrack = None, mi_isPlaying = None, mi_createdAt = m_createdAt newRoom\<rparr>),
                 Socket_emit (Music_room_list (map (\<lambda>(k, room). music_room_entry room) ms1)),
                 Socket_broadcast Music_room_list_update]))
         else (ms, [Socket_emit (Music_room_join_error Music_room_exists)]))"

definition m_leave_previous :: "sid \<Rightarrow> conn \<Rightarrow> music_store \<Rightarrow> music_store \<times> event action list" where
  "m_leave_previous s c ms =
     (if currentMusicRoom c \<noteq> [] then
        (case map_of ms (currentMusicRoom c) of
           None \<Rightarrow> (ms, [])
         | Some prevRoom \<Rightarrow>
             (let ms1 = AList.map_entry (currentMusicRoom c) (m_users_delete s) ms
              in (ms1, [Socket_leave (currentMusicRoom c),
                        Socket_to (currentMusicRoom c)
                          (Music_room_user_left (currentUser c) (m_users_size ms1 (currentMusicRoom c)))])))
      else (ms, []))"

definition join_music_room ::
  "sid \<Rightarrow> conn \<Rightarrow> string \<Rightarrow> music_store \<Rightarrow> conn \<times> music_store \<times> event action list" where
  "join_music_room s c roomId ms =
     (case map_of ms roomId of
        None \<Rightarrow> (c, ms, [Socket_emit (Music_room_join_error Music_room_not_found)])
      | Some room \<Rightarrow>
          if of_nat (fcard (m_users room)) \<ge> m_maxUsers room
          then (c, ms, [Socket_emit (Music_room_join_error (Music_room_full (m_maxUsers room)))])
          else
            (let (ms1, out1) = m_leave_previous s c ms;
                 ms2 = AList.map_entry roomId (m_users_add s) ms1;
                 n = m_users_size ms2 roomId
             in (c\<lparr>currentMusicRoom := roomId\<rparr>, ms2,
                 out1 @
                 [Socket_join roomId,
                  Socket_emit (Music_room_join_success
                    \<lparr>mj_roomId = roomId, mj_roomName = m_name room, mj_userCount = n,
                     mj_maxUsers = m_maxUsers room, mj_currentTrack = currentTrack room,
                     mj_isPlaying = isPlaying room, mj_playlist = playlist room\<rparr>),
                  Socket_to roomId (Music_room_user_joined (currentUser c) n)] @
                 map (\<lambda>m. Socket_emit (Music_chat_message_ev (m\<lparr>mm_isPrevious := Some True\<rparr>)))
                   (m_messages room))))"

definition leave_music_room ::
  "sid \<Rightarrow> conn \<Rightarrow> string \<Rightarrow> music_store \<Rightarrow> conn \<times> music_store \<times> event action list" where
  "leave_music_room s c roomId ms =
     (let (ms1, out) =
        (case map_of ms roomId of
           None \<Rightarrow> (ms, [])
         | Some room \<Rightarrow>
             if s |\<in>| m_users room then
               (let ms1 = AList.map_entry roomId (m_users_delete s) ms
                in (ms1, [Socket_leave roomId,
                          Socket_to roomId
                            (Music_room_user_left (currentUser c) (m_users_size ms1 roomId))]))
             else (ms, []))
      in (c\<lparr>currentMusicRoom := []\<rparr>, ms1, out))"

definition m_push_message :: "music_message \<Rightarrow> music_room \<Rightarrow> music_room" where
  "m_push_message m r =
     (let msgs = m_messages r @ [m]
      in r\<lparr>m_messages := (if length msgs > 100 then slice_last 100 msgs else msgs)\<rparr>)"

definition music_chat_message ::
  "sid \<Rightarrow> conn \<Rightarrow> env \<Rightarrow> string \<Rightarrow> string option \<Rightarrow> string option \<Rightarrow> number option \<Rightarrow> music_store
     \<Rightarrow> music_store \<times> event action list" where
  "music_chat_message s c e roomId msg usr ts ms =
     (case map_of ms roomId of
        None \<Rightarrow> (ms, [])
      | Some room \<Rightarrow>
          if s |\<in>| m_users room then
            (let messageData =
                   \<lparr>mm_id = gen_id e, mm_roomId = Some roomId, mm_type = None,
                    mm_user = (if truthy_str usr then the usr else currentUser c),
                    mm_message = msg,
                    mm_timestamp = (if truthy_num ts then the ts else of_int (now e)),
                    mm_audioUrl = None, mm_time = iso e, mm_isPrevious = Some False\<rparr>
             in (AList.map_entry roomId (m_push_message messageData) ms,
                 [Io_to roomId (Music_chat_message_ev messageData)]))
          else (ms, []))"

definition music_voice_message ::
  "sid \<Rightarrow> conn \<Rightarrow> env \<Rightarrow> string \<Rightarrow> string option \<Rightarrow> number option \<Rightarrow> string option \<Rightarrow> music_store
     \<Rightarrow> music_store \<times> event action list" where
  "music_voice_message s c e roomId usr ts audio ms =
     (case map_of ms roomId of
        None \<Rightarrow> (ms, [])
      | Some room \<Rightarrow>
          if s |\<in>| m_users room then
            (let voiceData =
                   \<lparr>mm_id = gen_id e, mm_roomId = Some roomId, mm_type = None,
                    mm_user = (if truthy_str usr then the usr else currentUser c),
                    mm_message = None,
                    mm_timestamp = (if truthy_num ts then the ts else of_int (now e)),
                    mm_audioUrl = audio, mm_time = iso e, mm_isPrevious = Some False\<rparr>
             in (AList.map_entry roomId (\<lambda>r. r\<lparr>m_messages := m_messages r @ [voiceData]\<rparr>) ms,
                 [Io_to roomId (Music_chat_message_ev voiceData)]))
          else (ms, []))"

definition music_uploaded ::
  "sid \<Rightarrow> conn \<Rightarrow> env \<Rightarrow> string \<Rightarrow> file_data \<Rightarrow> music_store \<Rightarrow> music_store \<times> event action list" where
  "music_uploaded s c e roomId musicData ms =
     (case map_of ms roomId of
        None \<Rightarrow> (ms, [])
      | Some room \<Rightarrow>
          if s |\<in>| m_users room then
            (let trackData =
                   \<lparr>track_id = gen_id e, title = strip_ext (originalname musicData),
                    t_filename = filename musicData, t_originalname = originalname musicData,
                    t_url = url musicData, uploader = currentUser c, uploadTime = now e,
                    duration = ''0:00'', votes = 0, voters = {||}\<rparr>;
                 systemMessage =
                   \<lparr>mm_id = show_int (now e) @ ''_system'', mm_roomId = None,
                    mm_type = Some ''system'', mm_user = ''SYSTEM'',
                    mm_message =
                      Some (currentUser c @ '' uploaded '' @ [CHR 0x22] @ title trackData @ [CHR 0x22]),
                    mm_timestamp = of_int (now e), mm_audioUrl = None, mm_time = iso e,
                    mm_isPrevious = None\<rparr>
             in (AList.map_entry roomId
                   (\<lambda>r. r\<lparr>playlist := playlist r @ [trackData],
                           m_messages := m_messages r @ [systemMessage]\<rparr>) ms,
                 [Io_to roomId
                    (Playlist_update (playlist room @ [trackData]) (currentTrack room) (isPlaying room)),
                  Io_to roomId (Music_chat_message_ev systemMessage)]))
          else (ms, []))"

definition play_track ::
  "sid \<Rightarrow> env \<Rightarrow> string \<Rightarrow> string \<Rightarrow> music_store \<Rightarrow> music_store \<times> event action list" where
  "play_track s e roomId trackId ms =
     (case map_of ms roomId of
        None \<Rightarrow> (ms, [])
      | Some room \<Rightarrow>
          if s |\<in>| m_users room then
            (case find (\<lambda>t. track_id t = trackId) (playlist room) of
               None \<Rightarrow> (ms, [])
             | Some tr \<Rightarrow>
                 (AList.map_entry roomId
                    (\<lambda>r. r\<lparr>currentTrack := Some tr, isPlaying := True, playStartTime := Some (now e)\<rparr>) ms,
                  [Io_to roomId (Track_changed tr True (now e))]))
          else (ms, []))"

definition toggle :: "env \<Rightarrow> music_room \<Rightarrow> music_room" where
  "toggle e r =
     (let r1 = r\<lparr>isPlaying := \<not> isPlaying r\<rparr>
      in if isPlaying r1 then r1\<lparr>playStartTime := Some (now e)\<rparr> else r1)"

definition toggle_playback ::
  "sid \<Rightarrow> env \<Rightarrow> string \<Rightarrow> music_store \<Rightarrow> music_store \<times> event action list" where
  "toggle_playback s e roomId ms =
     (case map_of ms roomId of
        None \<Rightarrow> (ms, [])
      | Some room \<Rightarrow>
          if s |\<in>| m_users room then
            (AList.map_entry roomId (toggle e) ms,
             [Io_to roomId
                (Playback_toggled (isPlaying (toggle e room)) (playStartTime (toggle e room)))])
          else (ms, []))"

section \<open>Disconnection, and the server as a whole\<close>

definition disconnect_chat :: "sid \<Rightarrow> conn \<Rightarrow> room_store \<Rightarrow> room_store \<times> event action list" where
  "disconnect_chat s c rs =
     (if currentRoom c \<noteq> [] then
        (case map_of rs (currentRoom c) of
           None \<Rightarrow> (rs, [])
         | Some room \<Rightarrow>
             (let rs1 = AList.map_entry (currentRoom c) (users_delete s) rs
              in (rs1, [Socket_to (currentRoom c)
                          (User_left_room (currentUser c) (users_size rs1 (currentRoom c)))])))
      else (rs, []))"

definition disconnect_music :: "sid \<Rightarrow> conn \<Rightarrow> music_store \<Rightarrow> music_store \<times> event action list" where
  "disconnect_music s c ms =
     (if currentMusicRoom c \<noteq> [] then
        (case map_of ms (currentMusicRoom c) of
           None \<Rightarrow> (ms, [])
         | Some room \<Rightarrow>
             (let ms1 = AList.map_entry (currentMusicRoom c) (m_users_delete s) ms
              in (ms1, [Socket_to (currentMusicRoom c)
                          (Music_room_user_left (currentUser c) (m_users_size ms1 (currentMusicRoom c)))])))
      else (ms, []))"

datatype request =
    User_join string
  | Get_room_list
  | Create_room string "number option" "string option"
  | Join_room string "string option"
  | Leave_room string
  | Chat_message string "string option" "file_data option"
  | Delete_message string string
  | Get_music_room_list
  | Create_music_room string "string option" "number option" "string list option"
  | Join_music_room string
  | Leave_music_room string
  | Music_chat_message string "string option" "string option" "number option"
  | Music_voice_message string "string option" "number option" "string option"
  | Music_uploaded string file_data
  | Play_track string string
  | Toggle_playback string

text \<open>One request on the socket \<open>s\<close> whose closure variables are \<open>c\<close>.\<close>

fun handle ::
  "sid \<Rightarrow> env \<Rightarrow> request \<Rightarrow> conn \<times> room_store \<times> music_store
     \<Rightarrow> (conn \<times> room_store \<times> music_store) \<times> event action list" where
  "handle s e (User_join u) (c, rs, ms) = (let (c1, out) = user_join c u in ((c1, rs, ms), out))"
| "handle s e Get_room_list (c, rs, ms) = ((c, rs, ms), get_room_list rs)"
| "handle s e (Create_room n mx pw) (c, rs, ms) =
     (let (rs1, out) = create_room c e n mx pw rs in ((c, rs1, ms), out))"
| "handle s e (Join_room n pw) (c, rs, ms) =
     (let (c1, rs1, out) = join_room s c n pw rs in ((c1, rs1, ms), out))"
| "handle s e (Leave_room n) (c, rs, ms) =
     (let (c1, rs1, out) = leave_room s c n rs in ((c1, rs1, ms), out))"
| "handle s e (Chat_message n msg fd) (c, rs, ms) =
     (let (rs1, out) = chat_message_h s c e n msg fd rs in ((c, rs1, ms), out))"
| "handle s e (Delete_message n i) (c, rs, ms) =
     (let (rs1, out) = delete_message s c n i rs in ((c, rs1, ms), out))"
| "handle s e Get_music_room_list (c, rs, ms) = ((c, rs, ms), get_music_room_list ms)"
| "handle s e (Create_music_room n d mx g) (c, rs, ms) =
     (let (ms1, out) = create_music_room c e n d mx g ms in ((c, rs, ms1), out))"
| "handle s e (Join_music_room i) (c, rs, ms) =
     (let (c1, ms1, out) = join_music_room s c i ms in ((c1, rs, ms1), out))"
| "handle s e (Leave_music_room i) (c, rs, ms) =
     (let (c1, ms1, out) = leave_music_room s c i ms in ((c1, rs, ms1), out))"
| "handle s e (Music_chat_message i msg u ts) (c, rs, ms) =
     (let (ms1, out) = music_chat_message s c e i msg u ts ms in ((c, rs, ms1), out))"
| "handle s e (Music_voice_message i u ts a) (c, rs, ms) =
     (let (ms1, out) = music_voice_message s c e i u ts a ms in ((c, rs, ms1), out))"
| "handle s e (Music_uploaded i d) (c, rs, ms) =
     (let (ms1, out) = music_uploaded s c e i d ms in ((c, rs, ms1), out))"
| "handle s e (Play_track i t) (c, rs, ms) =
     (let (ms1, out) = play_track s e i t ms in ((c, rs, ms1), out))"
| "handle s e (Toggle_playback i) (c, rs, ms) =
     (let (ms1, out) = toggle_playback s e i ms in ((c, rs, ms1), out))"

text \<open>
  The server: the two stores and the closure variables of every open connection.
  \<open>Connect\<close> is \<^verbatim>\<open>io.on('connection')\<close>, which creates the closure with three empty
  strings; \<open>Disconnect\<close> runs the \<^verbatim>\<open>'disconnect'\<close> handler, after which the closure is
  gone. A request on a socket that is not open reaches no handler.
\<close>

record server =
  rooms :: room_store
  musicRooms :: music_store
  conns :: "sid \<rightharpoonup> conn"

datatype input = Connect | Request request | Disconnect

definition init :: server where
  "init = \<lparr>rooms = [], musicRooms = [], conns = Map.empty\<rparr>"

fun step :: "server \<Rightarrow> sid \<times> env \<times> input \<Rightarrow> server \<times> event action list" where
  "step sv (s, e, Connect) =
     (case conns sv s of
        None \<Rightarrow> (sv\<lparr>conns := (conns sv)(s \<mapsto> \<lparr>currentUser = [], currentRoom = [], currentMusicRoom = []\<rparr>)\<rparr>, [])
      | Some c \<Rightarrow> (sv, []))"
| "step sv (s, e, Request r) =
     (case conns sv s of
        None \<Rightarrow> (sv, [])
      | Some c \<Rightarrow>
          (let ((c1, rs1, ms1), out) = handle s e r (c, rooms sv, musicRooms sv)
           in (\<lparr>rooms = rs1, musicRooms = ms1, conns = (conns sv)(s \<mapsto> c1)\<rparr>, out)))"
| "step sv (s, e, Disconnect) =
     (case conns sv s of
        None \<Rightarrow> (sv, [])
      | Some c \<Rightarrow>
          (let (rs1, out1) = disconnect_chat s c (rooms sv);
               (ms1, out2) = disconnect_music s c (musicRooms sv)
           in (\<lparr>rooms = rs1, musicRooms = ms1, conns = (conns sv)(s := None)\<rparr>, out1 @ out2)))"

text \<open>A run of the server: the state after a list of inputs, and everything emitted.\<close>

fun run :: "server \<Rightarrow> (sid \<times> env \<times> input) list \<Rightarrow> server \<times> event action list" where
  "run sv [] = (sv, [])"
| "run sv (i # is) =
     (let (sv1, out1) = step sv i; (sv2, out2) = run sv1 is in (sv2, out1 @ out2))"

section \<open>Example data\<close>

definition anna :: conn where
  "anna = \<lparr>currentUser = ''anna'', currentRoom = [], currentMusicRoom = []\<rparr>"

definition hello :: chat_message where
  "hello = \<lparr>msg_id = ''1000_aaa'', username = ''anna'', message = Some ''hello'', fileData = None,
            timestamp = ''t1'', isPrevious = False\<rparr>"

definition reply :: chat_message where
  "reply = \<lparr>msg_id = ''1001_bbb'', username = ''bob'', message = Some ''hi'', fileData = None,
            timestamp = ''t2'', isPrevious = False\<rparr>"

definition lobby :: chat_room where
  "lobby = \<lparr>name = ''lobby'', users = {|''x'', ''y''|}, messages = [hello, reply], maxUsers = Some 2,
            password = None, creator = ''bob'', createdAt = 0\<rparr>"

definition vault :: chat_room where
  "vault = \<lparr>name = ''vault'', users = {||}, messages = [], maxUsers = None,
            password = Some ''secret'', creator = ''bob'', createdAt = 0\<rparr>"

definition store0 :: room_store where
  "store0 = [(''lobby'', lobby), (''vault'', vault)]"

text \<open>The socket \<open>s\<close> is in the set \<^verbatim>\<open>users\<close> of the chat room stored under \<open>a\<close>.\<close>

definition occupies :: "room_store \<Rightarrow> string \<Rightarrow> sid \<Rightarrow> bool" where
  "occupies rs a s = (case map_of rs a of None \<Rightarrow> False | Some r \<Rightarrow> s |\<in>| users r)"

definition tick :: env where
  "tick = \<lparr>now = 1000, rnd = ''k3j9x0q2a'', iso = ''2024-01-01T00:00:00.000Z''\<rparr>"

definition anna_in_lobby :: server where
  "anna_in_lobby =
     \<lparr>rooms = store0, musicRooms = [],
      conns = [''x'' \<mapsto> \<lparr>currentUser = ''anna'', currentRoom = ''lobby'', currentMusicRoom = []\<rparr>]\<rparr>"

text \<open>A connection joins the room \<open>A\<close>, asks to leave the room \<open>B\<close> and then joins \<open>B\<close>.\<close>

definition two_rooms_trace :: "(sid \<times> env \<times> input) list" where
  "two_rooms_trace =
     [(''x'', tick, Connect),
      (''x'', tick, Request (Create_room ''A'' None None)),
      (''x'', tick, Request (Create_room ''B'' None None)),
      (''x'', tick, Request (Join_room ''A'' None)),
      (''x'', tick, Request (Leave_room ''B'')),
      (''x'', tick, Request (Join_room ''B'' None))]"

text \<open>A connection joins the room \<open>A\<close> and asks to leave a room \<open>B\<close> it is not in.\<close>

definition leave_other_trace :: "(sid \<times> env \<times> input) list" where
  "leave_other_trace =
     [(''x'', tick, Connect),
      (''x'', tick, Request (Create_room ''A'' None None)),
      (''x'', tick, Request (Join_room ''A'' None))]"

section \<open>The capacity of a room\<close>

text \<open>The number of occupants of a room is at most its \<^verbatim>\<open>maxUsers\<close>, when that is set (a
  music room always has one).\<close>

definition room_capacity_kept :: "chat_room \<Rightarrow> bool" where
  "room_capacity_kept r = (\<not> truthy_num (maxUsers r) \<or> of_nat (fcard (users r)) \<le> the (maxUsers r))"

definition music_capacity_kept :: "music_room \<Rightarrow> bool" where
  "music_capacity_kept r = (of_nat (fcard (m_users r)) \<le> m_maxUsers r)"

definition capacity_kept :: "server \<Rightarrow> bool" where
  "capacity_kept sv =
     (list_all (\<lambda>(k, r). room_capacity_kept r) (rooms sv)
      \<and> list_all (\<lambda>(k, r). music_capacity_kept r) (musicRooms sv))"

text \<open>The bound that the handlers keep: \<^verbatim>\<open>maxUsers\<close> rounded up to a whole number, and zero when
  that is negative.\<close>

definition room_capacity_bound :: "chat_room \<Rightarrow> bool" where
  "room_capacity_bound r =
     (\<not> truthy_num (maxUsers r) \<or> int (fcard (users r)) \<le> max 0 \<lceil>the (maxUsers r)\<rceil>)"

definition music_capacity_bound :: "music_room \<Rightarrow> bool" where
  "music_capacity_bound r = (int (fcard (m_users r)) \<le> max 0 \<lceil>m_maxUsers r\<rceil>)"

definition capacity_bound :: "server \<Rightarrow> bool" where
  "capacity_bound sv =
     (list_all (\<lambda>(k, r). room_capacity_bound r) (rooms sv)
      \<and> list_all (\<lambda>(k, r). music_capacity_bound r) (musicRooms sv))"

text \<open>A room is created with a negative capacity.\<close>

definition negative_capacity_trace :: "(sid \<times> env \<times> input) list" where
  "negative_capacity_trace =
     [(''x'', tick, Connect),
      (''x'', tick, Request (Create_room ''cellar'' (Some (- 1)) None))]"

text \<open>A room is created with the capacity one and a half, and two connections join it.\<close>

definition fractional_capacity_trace :: "(sid \<times> env \<times> input) list" where
  "fractional_capacity_trace =
     [(''x'', tick, Connect), (''y'', tick, Connect),
      (''x'', tick, Request (Create_room ''attic'' (Some (3 / 2)) None)),
      (''x'', tick, Request (Join_room ''attic'' None)),
      (''y'', tick, Request (Join_room ''attic'' None))]"

text \<open>A full room with a password.\<close>

definition locked :: chat_room where
  "locked = \<lparr>name = ''locked'', users = {|''x''|}, messages = [], maxUsers = Some 1,
             password = Some ''secret'', creator = ''bob'', createdAt = 0\<rparr>"

definition store1 :: room_store where
  "store1 = [(''locked'', locked)]"

text \<open>The room \<open>lobby\<close> for two; three connections ask to join it.\<close>

definition lobby_trace :: "(sid \<times> env \<times> input) list" where
  "lobby_trace =
     [(''x'', tick, Connect), (''y'', tick, Connect), (''z'', tick, Connect),
      (''x'', tick, Request (Create_room ''lobby'' (Some 2) None)),
      (''x'', tick, Request (Join_room ''lobby'' None)),
      (''y'', tick, Request (Join_room ''lobby'' None)),
      (''z'', tick, Request (Join_room ''lobby'' None))]"

definition song :: track where
  "song = \<lparr>track_id = ''1000_trk'', title = ''tune'', t_filename = ''17-tune.mp3'',
           t_originalname = ''tune.mp3'', t_url = ''/uploads/music/17-tune.mp3'', uploader = ''anna'',
           uploadTime = 1000, duration = ''0:00'', votes = 0, voters = {||}\<rparr>"

definition studio :: music_room where
  "studio = \<lparr>m_id = ''studio-1'', m_name = ''Studio'', m_description = ''Collaborative music workspace'',
             m_users = {|''x''|}, m_maxUsers = 1, m_creator = ''anna'', m_genres = [''Rock''],
             playlist = [song], currentTrack = None, currentTrackIndex = 0, isPlaying = False,
             playStartTime = None, m_messages = [], m_votes = [], m_createdAt = 1\<rparr>"

definition mstore0 :: music_store where
  "mstore0 = [(''studio-1'', studio)]"

section \<open>A sequence of posts to one room\<close>

text \<open>A \<^verbatim>\<open>'chat message'\<close> request: the socket, its closure variables, the clock and random
  readings of the invocation, and the text and file of the payload.\<close>

type_synonym post = "sid \<times> conn \<times> env \<times> string option \<times> file_data option"

text \<open>The \<^verbatim>\<open>messageData\<close> that the handler builds for a post.\<close>

fun posted :: "post \<Rightarrow> chat_message" where
  "posted (s, c, e, msg, fd) =
     \<lparr>msg_id = gen_id e, username = currentUser c, message = msg, fileData = fd,
      timestamp = iso e, isPrevious = False\<rparr>"

fun send_all :: "string \<Rightarrow> post list \<Rightarrow> room_store \<Rightarrow> room_store" where
  "send_all n [] rs = rs"
| "send_all n ((s, c, e, msg, fd) # ps) rs = send_all n ps (fst (chat_message_h s c e n msg fd rs))"

definition history_bounded :: "server \<Rightarrow> bool" where
  "history_bounded sv = list_all (\<lambda>(k, r). length (messages r) \<le> 100) (rooms sv)"

text \<open>A room whose history holds a hundred messages, and one more post to it.\<close>

definition crowded :: room_store where
  "crowded = [(''lobby'', lobby\<lparr>messages := replicate 100 hello\<rparr>)]"

definition one_more :: post where
  "one_more = (''x'', anna, tick, Some ''one more'', None)"

section \<open>Play, pause, resume\<close>

text \<open>
  A track is played at the clock reading of \<open>e1\<close>, the playback is toggled at \<open>e2\<close> and
  again at \<open>e3\<close>, by the socket \<open>s\<close> in the music room \<open>i\<close>: the \<^verbatim>\<open>playStartTime\<close> after the
  second toggle is strictly greater than the one that the play stamped.
\<close>

definition resume_stamp_later ::
  "sid \<Rightarrow> env \<Rightarrow> env \<Rightarrow> env \<Rightarrow> string \<Rightarrow> string \<Rightarrow> music_store \<Rightarrow> bool" where
  "resume_stamp_later s e1 e2 e3 i trackId ms =
     (let ms1 = fst (play_track s e1 i trackId ms);
          ms2 = fst (toggle_playback s e2 i ms1);
          ms3 = fst (toggle_playback s e3 i ms2)
      in case (map_option playStartTime (map_of ms1 i), map_option playStartTime (map_of ms3 i)) of
           (Some (Some t1), Some (Some t2)) \<Rightarrow> t1 < t2
         | _ \<Rightarrow> False)"

section \<open>Delivery\<close>

text \<open>
  Who receives what a handler emits. socket.io keeps, for every channel name, the set of
  sockets that are in it: a socket enters the channel of its own id when it connects,
  \<^verbatim>\<open>socket.join\<close> and \<^verbatim>\<open>socket.leave\<close> add and remove it, and it has left every channel
  when its \<^verbatim>\<open>'disconnect'\<close> handler runs. Chat room names and music room ids name channels
  of the same space. A delivery is an event with the set of sockets that receive it.
\<close>

type_synonym channels = "string \<Rightarrow> sid fset"

type_synonym delivery = "sid fset \<times> event"

record net =
  srv :: server
  chans :: channels
  opened :: "sid fset"

definition net_init :: net where
  "net_init = \<lparr>srv = init, chans = (\<lambda>r. {||}), opened = {||}\<rparr>"

fun perform :: "sid \<Rightarrow> sid fset \<Rightarrow> event action \<Rightarrow> channels \<Rightarrow> channels \<times> delivery list" where
  "perform s op (Socket_emit ev) ch = (ch, [({|s|}, ev)])"
| "perform s op (Socket_to r ev) ch = (ch, [(ch r |-| {|s|}, ev)])"
| "perform s op (Io_to r ev) ch = (ch, [(ch r, ev)])"
| "perform s op (Socket_broadcast ev) ch = (ch, [(op |-| {|s|}, ev)])"
| "perform s op (Socket_join r) ch = (ch(r := finsert s (ch r)), [])"
| "perform s op (Socket_leave r) ch = (ch(r := ch r |-| {|s|}), [])"
| "perform s op (Fs_unlink_upload f) ch = (ch, [])"

fun perform_all ::
  "sid \<Rightarrow> sid fset \<Rightarrow> event action list \<Rightarrow> channels \<Rightarrow> channels \<times> delivery list" where
  "perform_all s op [] ch = (ch, [])"
| "perform_all s op (a # as) ch =
     (let (ch1, d1) = perform s op a ch; (ch2, d2) = perform_all s op as ch1 in (ch2, d1 @ d2))"

fun net_step :: "net \<Rightarrow> sid \<times> env \<times> input \<Rightarrow> net \<times> delivery list" where
  "net_step nt (s, e, Connect) =
     (case conns (srv nt) s of
        None \<Rightarrow>
          (\<lparr>srv = fst (step (srv nt) (s, e, Connect)),
            chans = (chans nt)(s := finsert s (chans nt s)),
            opened = finsert s (opened nt)\<rparr>, [])
      | Some c \<Rightarrow> (nt, []))"
| "net_step nt (s, e, Request r) =
     (let (sv1, out) = step (srv nt) (s, e, Request r);
          (ch1, ds) = perform_all s (opened nt) out (chans nt)
      in (\<lparr>srv = sv1, chans = ch1, opened = opened nt\<rparr>, ds))"
| "net_step nt (s, e, Disconnect) =
     (case conns (srv nt) s of
        None \<Rightarrow> (nt, [])
      | Some c \<Rightarrow>
          (let ch0 = (\<lambda>r. chans nt r |-| {|s|});
               op0 = opened nt |-| {|s|};
               (sv1, out) = step (srv nt) (s, e, Disconnect);
               (ch1, ds) = perform_all s op0 out ch0
           in (\<lparr>srv = sv1, chans = ch1, opened = op0\<rparr>, ds)))"

fun net_run :: "net \<Rightarrow> (sid \<times> env \<times> input) list \<Rightarrow> net \<times> delivery list" where
  "net_run nt [] = (nt, [])"
| "net_run nt (i # is) =
     (let (nt1, d1) = net_step nt i; (nt2, d2) = net_run nt1 is in (nt2, d1 @ d2))"

text \<open>
  Two connections are in the music room \<open>Jam\<close>, created at the clock reading 1000 and so
  with the id \<open>jam-1000\<close>. One of them creates a chat room of that name, joins it and
  leaves it again.
\<close>

definition same_name_trace :: "(sid \<times> env \<times> input) list" where
  "same_name_trace =
     [(''x'', tick, Connect), (''y'', tick, Connect),
      (''x'', tick, Request (Create_music_room ''Jam'' None None None)),
      (''x'', tick, Request (Join_music_room ''jam-1000'')),
      (''y'', tick, Request (Join_music_room ''jam-1000'')),
      (''x'', tick, Request (Create_room ''jam-1000'' None None)),
      (''x'', tick, Request (Join_room ''jam-1000'' None)),
      (''x'', tick, Request (Leave_room ''jam-1000''))]"

text \<open>
  Two posts in one room draw the same clock reading and the same random suffix; the id
  that both get is then deleted once.
\<close>

definition same_id_trace :: "(sid \<times> env \<times> input) list" where
  "same_id_trace =
     [(''x'', tick, Connect),
      (''x'', tick, Request (User_join ''anna'')),
      (''x'', tick, Request (Create_room ''A'' None None)),
      (''x'', tick, Request (Join_room ''A'' None)),
      (''x'', tick, Request (Chat_message ''A'' (Some ''one'') None)),
      (''x'', tick, Request (Chat_message ''A'' (Some ''two'') None)),
      (''x'', tick, Request (Delete_message ''A'' ''1000_k3j9x0q2a''))]"

text \<open>A history in which one id occurs twice.\<close>

definition twice :: room_store where
  "twice = [(''lobby'', lobby\<lparr>messages := [hello, hello]\<rparr>)]"

text \<open>The connection \<open>x\<close> in the music room \<open>studio-1\<close> and in its channel.\<close>

definition studio_net :: net where
  "studio_net =
     \<lparr>srv = \<lparr>rooms = [], musicRooms = mstore0, conns = [''x'' \<mapsto> anna]\<rparr>,
      chans = (\<lambda>r. {||})(''studio-1'' := {|''x''|}),
      opened = {|''x''|}\<rparr>"

section \<open>Lookups in a store\<close>

lemma map_of_leave_previous:
  "map_of (fst (leave_previous s c rs)) k =
     (if k = currentRoom c \<and> currentRoom c \<noteq> [] then map_option (users_delete s) (map_of rs k)
      else map_of rs k)"
  by (auto simp: leave_previous_def Let_def map_of_map_entry split: option.splits)

lemma findIndex_None: "findIndex P xs = None \<longleftrightarrow> (\<forall>x\<in>set xs. \<not> P x)"
  by (induction xs) auto

lemma findIndex_first:
  "\<forall>x\<in>set pre. \<not> P x \<Longrightarrow> P m \<Longrightarrow> findIndex P (pre @ m # post) = Some (length pre)"
  by (induction pre) auto

lemma splice1_middle: "splice1 (length pre) (pre @ m # post) = pre @ post"
  by (simp add: splice1_def)


section \<open>Joining a chat room\<close>

text \<open>
  C1. A \<^verbatim>\<open>'join room'\<close> request is rejected, with one \<^verbatim>\<open>'room join error'\<close> emitted to the
  requester only and neither the store nor the closure variables changed, exactly in
  three cases, tried in this order: the room does not exist (not found); the room has a
  password, the requester's name is not the creator's and the supplied password is absent
  or different (wrong password); \<^verbatim>\<open>maxUsers\<close> is set and the number of occupants has
  reached it (full). In every other case the join succeeds: the requester is an occupant
  afterwards, \<^verbatim>\<open>'room join success'\<close> is emitted and no error is.
\<close>

theorem join_room_rejection:
  fixes s :: sid and c :: conn and roomName :: string and pw :: "string option" and rs :: room_store
  defines "res \<equiv> join_room s c roomName pw rs"
  defines "wrong_pw \<equiv> \<lambda>room. truthy_str (password room) \<and> creator room \<noteq> currentUser c
                       \<and> (\<not> truthy_str pw \<or> pw \<noteq> password room)"
  defines "full \<equiv> \<lambda>room. truthy_num (maxUsers room) \<and> the (maxUsers room) \<le> of_nat (fcard (users room))"
  shows "(map_of rs roomName = None \<longrightarrow> res = (c, rs, [Socket_emit (Room_join_error Room_not_found)]))
    \<and> (\<forall>room. map_of rs roomName = Some room \<and> wrong_pw room
           \<longrightarrow> res = (c, rs, [Socket_emit (Room_join_error Wrong_password)]))
    \<and> (\<forall>room. map_of rs roomName = Some room \<and> \<not> wrong_pw room \<and> full room
           \<longrightarrow> res = (c, rs, [Socket_emit (Room_join_error (Room_full (the (maxUsers room))))]))
    \<and> (\<forall>room. map_of rs roomName = Some room \<and> \<not> wrong_pw room \<and> \<not> full room
           \<longrightarrow> (\<exists>room'. map_of (fst (snd res)) roomName = Some room' \<and> s |\<in>| users room')
               \<and> currentRoom (fst res) = roomName
               \<and> Socket_emit (Room_join_success roomName (users_size (fst (snd res)) roomName) (maxUsers room))
                    \<in> set (snd (snd res))
               \<and> (\<forall>err. Socket_emit (Room_join_error err) \<notin> set (snd (snd res))))"
proof (intro conjI allI impI)
  show "res = (c, rs, [Socket_emit (Room_join_error Room_not_found)])" if "map_of rs roomName = None"
    using that by (simp add: res_def join_room_def)
next
  fix room assume "map_of rs roomName = Some room \<and> wrong_pw room"
  then show "res = (c, rs, [Socket_emit (Room_join_error Wrong_password)])"
    by (auto simp add: res_def join_room_def wrong_pw_def)
next
  fix room assume "map_of rs roomName = Some room \<and> \<not> wrong_pw room \<and> full room"
  then show "res = (c, rs, [Socket_emit (Room_join_error (Room_full (the (maxUsers room))))])"
    by (auto simp add: res_def join_room_def wrong_pw_def full_def)
next
  fix room assume a: "map_of rs roomName = Some room \<and> \<not> wrong_pw room \<and> \<not> full room"
  obtain rs1 out1 where lp: "leave_previous s c rs = (rs1, out1)" by (cases "leave_previous s c rs")
  from a have r: "res = (c\<lparr>currentRoom := roomName\<rparr>, AList.map_entry roomName (users_add s) rs1,
                 out1 @
                 [Socket_join roomName,
                  Socket_emit (Room_join_success roomName (users_size (AList.map_entry roomName (users_add s) rs1) roomName) (maxUsers room)),
                  Socket_to roomName (User_joined_room (currentUser c) (users_size (AList.map_entry roomName (users_add s) rs1) roomName)),
                  Socket_emit (Room_user_count (users_size (AList.map_entry roomName (users_add s) rs1) roomName) (maxUsers room))] @
                 map (\<lambda>m. Socket_emit (Chat_message_ev (m\<lparr>isPrevious := True\<rparr>))) (messages room))"
    by (auto simp add: res_def join_room_def wrong_pw_def full_def lp Let_def)
  have "map_of rs1 roomName \<noteq> None"
    using map_of_leave_previous[of s c rs roomName] a by (auto simp: lp)
  then obtain r1 where r1: "map_of rs1 roomName = Some r1" by auto
  show "\<exists>room'. map_of (fst (snd res)) roomName = Some room' \<and> s |\<in>| users room'"
    by (simp add: r map_of_map_entry r1 users_add_def)
  show "currentRoom (fst res) = roomName" by (simp add: r)
  show "Socket_emit (Room_join_success roomName (users_size (fst (snd res)) roomName) (maxUsers room))
                    \<in> set (snd (snd res))" by (simp add: r)
  have "Socket_emit (Room_join_error err) \<notin> set out1" for err
    using lp by (auto simp: leave_previous_def Let_def split: if_splits option.splits)
  then show "\<And>err. Socket_emit (Room_join_error err) \<notin> set (snd (snd res))"
    by (auto simp add: r)
qed


theorem join_room_rejection_witness:
  "join_room ''z'' anna ''nowhere'' None store0 = (anna, store0, [Socket_emit (Room_join_error Room_not_found)])
   \<and> join_room ''z'' anna ''vault'' (Some ''guess'') store0 = (anna, store0, [Socket_emit (Room_join_error Wrong_password)])
   \<and> join_room ''z'' anna ''lobby'' None store0 = (anna, store0, [Socket_emit (Room_join_error (Room_full 2))])
   \<and> currentRoom (fst (join_room ''z'' anna ''vault'' (Some ''secret'') store0)) = ''vault''"
proof -
  have 1: "map_of store0 ''nowhere'' = None" by (simp add: store0_def)
  have 2: "map_of store0 ''vault'' = Some vault \<and>
     truthy_str (password vault) \<and> creator vault \<noteq> currentUser anna \<and>
     (\<not> truthy_str (Some ''guess'') \<or> Some ''guess'' \<noteq> password vault)"
    by (simp add: store0_def vault_def anna_def)
  have 3: "map_of store0 ''lobby'' = Some lobby \<and>
     \<not> (truthy_str (password lobby) \<and> creator lobby \<noteq> currentUser anna \<and>
        (\<not> truthy_str None \<or> None \<noteq> password lobby)) \<and>
     truthy_num (maxUsers lobby) \<and> the (maxUsers lobby) \<le> of_nat (fcard (users lobby))"
    by (simp add: store0_def lobby_def anna_def fcard_finsert_if)
  have 4: "map_of store0 ''vault'' = Some vault \<and>
     \<not> (truthy_str (password vault) \<and> creator vault \<noteq> currentUser anna \<and>
        (\<not> truthy_str (Some ''secret'') \<or> Some ''secret'' \<noteq> password vault)) \<and>
     \<not> (truthy_num (maxUsers vault) \<and> the (maxUsers vault) \<le> of_nat (fcard (users vault)))"
    by (simp add: store0_def vault_def anna_def)
  note t = join_room_rejection
  from t[where rs = store0 and roomName = "''nowhere''" and s = "''z''" and c = anna and pw = None] 1
  have a: "join_room ''z'' anna ''nowhere'' None store0 = (anna, store0, [Socket_emit (Room_join_error Room_not_found)])"
    by blast
  from t[where rs = store0 and roomName = "''vault''" and s = "''z''" and c = anna and pw = "Some ''guess''"] 2
  have b: "join_room ''z'' anna ''vault'' (Some ''guess'') store0 = (anna, store0, [Socket_emit (Room_join_error Wrong_password)])"
    by blast
  from t[where rs = store0 and roomName = "''lobby''" and s = "''z''" and c = anna and pw = None] 3
  have "join_room ''z'' anna ''lobby'' None store0 = (anna, store0, [Socket_emit (Room_join_error (Room_full (the (maxUsers lobby))))])"
    by blast
  then have c: "join_room ''z'' anna ''lobby'' None store0 = (anna, store0, [Socket_emit (Room_join_error (Room_full 2))])"
    by (simp add: lobby_def)
  from t[where rs = store0 and roomName = "''vault''" and s = "''z''" and c = anna and pw = "Some ''secret''"] 4
  have d: "currentRoom (fst (join_room ''z'' anna ''vault'' (Some ''secret'') store0)) = ''vault''"
    by blast
  from a b c d show ?thesis by simp
qed

section \<open>Deleting a message\<close>

text \<open>
  C5. A \<^verbatim>\<open>'delete message'\<close> request fails with "not authorized" when the requester is
  not an occupant of the room (or the room does not exist); otherwise with "message not
  found" when no message of the history has the id; otherwise with "not the author" when
  the first message with that id was written under another name than the requester's
  current one. Each failure is one \<^verbatim>\<open>'delete error'\<close> to the requester only, and the
  whole store is unchanged.
\<close>

theorem delete_message_failures:
  "((\<forall>room. map_of rs n = Some room \<longrightarrow> \<not> s |\<in>| users room)
       \<longrightarrow> delete_message s c n i rs = (rs, [Socket_emit (Delete_error Not_authorized)]))
   \<and> (\<forall>room. map_of rs n = Some room \<and> s |\<in>| users room
          \<and> (\<forall>m\<in>set (messages room). msg_id m \<noteq> i)
       \<longrightarrow> delete_message s c n i rs = (rs, [Socket_emit (Delete_error Message_not_found)]))
   \<and> (\<forall>room pre m post. map_of rs n = Some room \<and> s |\<in>| users room
          \<and> messages room = pre @ m # post \<and> (\<forall>x\<in>set pre. msg_id x \<noteq> i) \<and> msg_id m = i
          \<and> username m \<noteq> currentUser c
       \<longrightarrow> delete_message s c n i rs = (rs, [Socket_emit (Delete_error Not_author)]))"
proof (intro conjI allI impI)
  assume "\<forall>room. map_of rs n = Some room \<longrightarrow> \<not> s |\<in>| users room"
  then show "delete_message s c n i rs = (rs, [Socket_emit (Delete_error Not_authorized)])"
    by (auto simp: delete_message_def split: option.splits)
next
  fix room
  assume a: "map_of rs n = Some room \<and> s |\<in>| users room \<and> (\<forall>m\<in>set (messages room). msg_id m \<noteq> i)"
  then have "findIndex (\<lambda>m. msg_id m = i) (messages room) = None"
    by (simp add: findIndex_None)
  with a show "delete_message s c n i rs = (rs, [Socket_emit (Delete_error Message_not_found)])"
    by (simp add: delete_message_def)
next
  fix room pre m post
  assume a: "map_of rs n = Some room \<and> s |\<in>| users room
          \<and> messages room = pre @ m # post \<and> (\<forall>x\<in>set pre. msg_id x \<noteq> i) \<and> msg_id m = i
          \<and> username m \<noteq> currentUser c"
  then have "findIndex (\<lambda>m. msg_id m = i) (messages room) = Some (length pre)"
    by (simp add: findIndex_first)
  with a show "delete_message s c n i rs = (rs, [Socket_emit (Delete_error Not_author)])"
    by (simp add: delete_message_def)
qed


theorem delete_message_failures_witness:
  "delete_message ''z'' anna ''lobby'' ''1000_aaa'' store0 = (store0, [Socket_emit (Delete_error Not_authorized)])
   \<and> delete_message ''x'' anna ''lobby'' ''7_zzz'' store0 = (store0, [Socket_emit (Delete_error Message_not_found)])
   \<and> delete_message ''x'' anna ''lobby'' ''1001_bbb'' store0 = (store0, [Socket_emit (Delete_error Not_author)])"
proof -
  have 1: "\<forall>room. map_of store0 ''lobby'' = Some room \<longrightarrow> \<not> ''z'' |\<in>| users room"
    by (simp add: store0_def lobby_def)
  have 2: "map_of store0 ''lobby'' = Some lobby \<and> ''x'' |\<in>| users lobby
          \<and> (\<forall>m\<in>set (messages lobby). msg_id m \<noteq> ''7_zzz'')"
    by (simp add: store0_def lobby_def hello_def reply_def)
  have 3: "map_of store0 ''lobby'' = Some lobby \<and> ''x'' |\<in>| users lobby
          \<and> messages lobby = [hello] @ reply # [] \<and> (\<forall>x\<in>set [hello]. msg_id x \<noteq> ''1001_bbb'')
          \<and> msg_id reply = ''1001_bbb'' \<and> username reply \<noteq> currentUser anna"
    by (simp add: store0_def lobby_def hello_def reply_def anna_def)
  note t = delete_message_failures
  from t[where rs = store0 and n = "''lobby''" and s = "''z''" and c = anna and i = "''1000_aaa''"] 1
  have a: "delete_message ''z'' anna ''lobby'' ''1000_aaa'' store0 = (store0, [Socket_emit (Delete_error Not_authorized)])"
    by blast
  from t[where rs = store0 and n = "''lobby''" and s = "''x''" and c = anna and i = "''7_zzz''"] 2
  have b: "delete_message ''x'' anna ''lobby'' ''7_zzz'' store0 = (store0, [Socket_emit (Delete_error Message_not_found)])"
    by blast
  from t[where rs = store0 and n = "''lobby''" and s = "''x''" and c = anna and i = "''1001_bbb''"] 3
  have c: "delete_message ''x'' anna ''lobby'' ''1001_bbb'' store0 = (store0, [Socket_emit (Delete_error Not_author)])"
    by blast
  from a b c show ?thesis by simp
qed

text \<open>
  C6, as the code has it. A successful \<^verbatim>\<open>'delete message'\<close> removes the first message with
  the requested id from the history of the room and nothing else: the other entries keep
  their order, the other fields of the room and the other rooms are unchanged. The
  deletion is announced to the room and acknowledged to the requester. The same request
  issued again fails with "message not found" exactly when no later message of the
  history has the same id; when one has, the request finds that message instead, and
  deletes it or fails with "not the author".
\<close>

theorem delete_message_removes_one:
  assumes room: "map_of rs n = Some room" and occ: "s |\<in>| users room"
    and split: "messages room = pre @ m # post" and pre: "\<forall>x\<in>set pre. msg_id x \<noteq> i"
    and m: "msg_id m = i" and author: "username m = currentUser c"
  defines "rs' \<equiv> fst (delete_message s c n i rs)"
  shows "map_of rs' n = Some (room\<lparr>messages := pre @ post\<rparr>)
     \<and> (\<forall>k. k \<noteq> n \<longrightarrow> map_of rs' k = map_of rs k)
     \<and> map fst rs' = map fst rs
     \<and> Io_to n (Message_deleted i) \<in> set (snd (delete_message s c n i rs))
     \<and> Socket_emit (Delete_success i) \<in> set (snd (delete_message s c n i rs))
     \<and> ((\<forall>x\<in>set post. msg_id x \<noteq> i)
          \<longrightarrow> delete_message s c n i rs' = (rs', [Socket_emit (Delete_error Message_not_found)]))
     \<and> ((\<exists>x\<in>set post. msg_id x = i)
          \<longrightarrow> snd (delete_message s c n i rs') = [Socket_emit (Delete_error Not_author)]
              \<or> Socket_emit (Delete_success i) \<in> set (snd (delete_message s c n i rs')))"
proof -
  have fi: "findIndex (\<lambda>m. msg_id m = i) (messages room) = Some (length pre)"
    using split pre m by (simp add: findIndex_first)
  have rs': "rs' = AList.map_entry n (\<lambda>r. r\<lparr>messages := splice1 (length pre) (messages r)\<rparr>) rs"
    using room occ fi split author by (simp add: rs'_def delete_message_def)
  have out: "snd (delete_message s c n i rs) =
      (case fileData m of None \<Rightarrow> []
       | Some f \<Rightarrow> if filename f \<noteq> [] then [Fs_unlink_upload (filename f)] else []) @
      [Io_to n (Message_deleted i), Socket_emit (Delete_success i)]"
    using room occ fi split author by (simp add: delete_message_def)
  have at_n: "map_of rs' n = Some (room\<lparr>messages := pre @ post\<rparr>)"
    by (simp add: rs' map_of_map_entry room split splice1_middle)
  have other: "\<forall>k. k \<noteq> n \<longrightarrow> map_of rs' k = map_of rs k"
    by (simp add: rs' map_of_map_entry)
  have keys: "map fst rs' = map fst rs"
    unfolding rs' by (induction rs) auto
  have again: "delete_message s c n i rs' = (rs', [Socket_emit (Delete_error Message_not_found)])"
    if d: "\<forall>x\<in>set post. msg_id x \<noteq> i"
  proof -
    from d pre have "findIndex (\<lambda>m. msg_id m = i) (pre @ post) = None"
      by (auto simp: findIndex_None)
    with at_n occ show ?thesis by (simp add: delete_message_def)
  qed
  have found: "snd (delete_message s c n i rs') = [Socket_emit (Delete_error Not_author)]
              \<or> Socket_emit (Delete_success i) \<in> set (snd (delete_message s c n i rs'))"
    if d: "\<exists>x\<in>set post. msg_id x = i"
  proof -
    from d have "findIndex (\<lambda>m. msg_id m = i) (pre @ post) \<noteq> None"
      by (auto simp: findIndex_None)
    then obtain j where "findIndex (\<lambda>m. msg_id m = i) (pre @ post) = Some j" by auto
    with at_n occ show ?thesis by (auto simp: delete_message_def Let_def split: option.splits)
  qed
  show ?thesis using at_n other keys out again found by simp
qed

theorem delete_message_removes_one_witness:
  "map_of (fst (delete_message ''x'' anna ''lobby'' ''1000_aaa'' store0)) ''lobby''
      = Some (lobby\<lparr>messages := [reply]\<rparr>)
   \<and> delete_message ''x'' anna ''lobby'' ''1000_aaa'' (fst (delete_message ''x'' anna ''lobby'' ''1000_aaa'' store0))
      = (fst (delete_message ''x'' anna ''lobby'' ''1000_aaa'' store0), [Socket_emit (Delete_error Message_not_found)])
   \<and> Socket_emit (Delete_success ''1000_aaa'')
        \<in> set (snd (delete_message ''x'' anna ''lobby'' ''1000_aaa''
                      (fst (delete_message ''x'' anna ''lobby'' ''1000_aaa'' twice))))"
proof -
  have 1: "map_of store0 ''lobby'' = Some lobby" by (simp add: store0_def)
  have 2: "''x'' |\<in>| users lobby" by (simp add: lobby_def)
  have 3: "messages lobby = [] @ hello # [reply]" by (simp add: lobby_def)
  have 4: "\<forall>x\<in>set []. msg_id x \<noteq> ''1000_aaa''" by simp
  have 5: "msg_id hello = ''1000_aaa''" by (simp add: hello_def)
  have 6: "username hello = currentUser anna" by (simp add: hello_def anna_def)
  have 7: "\<forall>x\<in>set [reply]. msg_id x \<noteq> ''1000_aaa''" by (simp add: reply_def)
  have 11: "map_of twice ''lobby'' = Some (lobby\<lparr>messages := [hello, hello]\<rparr>)" by (simp add: twice_def)
  have 12: "''x'' |\<in>| users (lobby\<lparr>messages := [hello, hello]\<rparr>)" by (simp add: lobby_def)
  have 13: "messages (lobby\<lparr>messages := [hello, hello]\<rparr>) = [] @ hello # [hello]" by simp
  have 17: "\<exists>x\<in>set [hello]. msg_id x = ''1000_aaa''" by (simp add: hello_def)
  from delete_message_removes_one[OF 1 2 3 4 5 6] 7
  have a: "map_of (fst (delete_message ''x'' anna ''lobby'' ''1000_aaa'' store0)) ''lobby''
      = Some (lobby\<lparr>messages := [reply]\<rparr>)
   \<and> delete_message ''x'' anna ''lobby'' ''1000_aaa'' (fst (delete_message ''x'' anna ''lobby'' ''1000_aaa'' store0))
      = (fst (delete_message ''x'' anna ''lobby'' ''1000_aaa'' store0), [Socket_emit (Delete_error Message_not_found)])"
    by simp
  from delete_message_removes_one[OF 11 12 13 4 5 6] 17
  have "snd (delete_message ''x'' anna ''lobby'' ''1000_aaa'' (fst (delete_message ''x'' anna ''lobby'' ''1000_aaa'' twice)))
        = [Socket_emit (Delete_error Not_author)]
      \<or> Socket_emit (Delete_success ''1000_aaa'')
        \<in> set (snd (delete_message ''x'' anna ''lobby'' ''1000_aaa''
                      (fst (delete_message ''x'' anna ''lobby'' ''1000_aaa'' twice))))"
    by blast
  moreover have "snd (delete_message ''x'' anna ''lobby'' ''1000_aaa'' (fst (delete_message ''x'' anna ''lobby'' ''1000_aaa'' twice)))
        \<noteq> [Socket_emit (Delete_error Not_author)]"
    by (simp add: delete_message_def twice_def lobby_def hello_def anna_def splice1_def Let_def)
  ultimately have b: "Socket_emit (Delete_success ''1000_aaa'')
        \<in> set (snd (delete_message ''x'' anna ''lobby'' ''1000_aaa''
                      (fst (delete_message ''x'' anna ''lobby'' ''1000_aaa'' twice))))"
    by blast
  from a b show ?thesis by blast
qed

lemma tick_id: "gen_id tick = ''1000_k3j9x0q2a''"
  by code_simp

text \<open>
  C6, as it is stated, fails: nothing keeps the ids of a history apart. Two posts that
  draw the same clock reading and the same random suffix get one id; after a first
  successful delete of that id, the same request succeeds again and removes the other
  message.
\<close>

theorem second_delete_counterexample:
  "Socket_emit (Delete_success ''1000_k3j9x0q2a'') \<in> set (snd (run init same_id_trace))
   \<and> snd (step (fst (run init same_id_trace)) (''x'', tick, Request (Delete_message ''A'' ''1000_k3j9x0q2a'')))
       = [Io_to ''A'' (Message_deleted ''1000_k3j9x0q2a''), Socket_emit (Delete_success ''1000_k3j9x0q2a'')]"
  by (simp add: same_id_trace_def init_def user_join_def create_room_def join_room_def
        leave_previous_def chat_message_h_def delete_message_def push_message_def
        or_null_num_def or_null_str_def users_size_def users_add_def users_delete_def Let_def
        splice1_def tick_id)

section \<open>Posting as a non-occupant\<close>

text \<open>
  C7. A \<^verbatim>\<open>'chat message'\<close> request of a connection that is not an occupant of the named
  room, or that names no room, is dropped: nothing is emitted and the state of the
  server is the same.
\<close>

theorem chat_message_non_occupant_dropped:
  assumes "\<forall>room. map_of (rooms sv) n = Some room \<longrightarrow> \<not> s |\<in>| users room"
  shows "step sv (s, e, Request (Chat_message n msg fd)) = (sv, [])"
proof (cases "conns sv s")
  case None
  then show ?thesis by simp
next
  case (Some c)
  have "chat_message_h s c e n msg fd (rooms sv) = (rooms sv, [])"
    using assms by (auto simp: chat_message_h_def split: option.splits)
  then show ?thesis using Some by (simp add: map_upd_triv)
qed

theorem chat_message_non_occupant_dropped_witness:
  "step \<lparr>rooms = store0, musicRooms = [], conns = [''z'' \<mapsto> anna]\<rparr>
        (''z'', \<lparr>now = 1, rnd = ''r'', iso = ''t''\<rparr>, Request (Chat_message ''lobby'' (Some ''hey'') None))
     = (\<lparr>rooms = store0, musicRooms = [], conns = [''z'' \<mapsto> anna]\<rparr>, [])"
proof -
  have "\<forall>room. map_of (rooms \<lparr>rooms = store0, musicRooms = [], conns = [''z'' \<mapsto> anna]\<rparr>) ''lobby'' = Some room
          \<longrightarrow> \<not> ''z'' |\<in>| users room"
    by (simp add: store0_def lobby_def)
  from chat_message_non_occupant_dropped[OF this] show ?thesis .
qed

section \<open>Leaving a room the connection is not in\<close>

lemma occupies_map_entry:
  "occupies rs a s \<Longrightarrow> (\<And>r. s |\<in>| users r \<Longrightarrow> s |\<in>| users (f r))
     \<Longrightarrow> occupies (AList.map_entry k f rs) a s"
  by (auto simp: occupies_def map_of_map_entry split: option.splits)

lemma occupies_update_new:
  "map_of rs k = None \<Longrightarrow> occupies rs a s \<Longrightarrow> occupies (AList.update k v rs) a s"
  by (auto simp: occupies_def update_conv' split: option.splits)

lemma users_delete_other: "s' \<noteq> s \<Longrightarrow> s |\<in>| users r \<Longrightarrow> s |\<in>| users (users_delete s' r)"
  by (simp add: users_delete_def)

lemma users_add_keeps: "s |\<in>| users r \<Longrightarrow> s |\<in>| users (users_add s' r)"
  by (simp add: users_add_def)

lemma occupies_create_room:
  "occupies rs a s \<Longrightarrow> occupies (fst (create_room c e n mx pw rs)) a s"
  by (simp add: create_room_def occupies_update_new)

lemma occupies_leave_previous:
  "s' \<noteq> s \<Longrightarrow> occupies rs a s \<Longrightarrow> occupies (fst (leave_previous s' c rs)) a s"
  by (auto simp: leave_previous_def Let_def occupies_map_entry users_delete_other split: option.splits)

lemma occupies_join_room:
  assumes "s' \<noteq> s" "occupies rs a s"
  shows "occupies (fst (snd (join_room s' c n pw rs))) a s"
proof -
  have "occupies (AList.map_entry n (users_add s') (fst (leave_previous s' c rs))) a s"
    by (intro occupies_map_entry occupies_leave_previous assms users_add_keeps)
  with assms(2) show ?thesis
    by (auto simp: join_room_def Let_def split: option.splits prod.splits)
qed

lemma occupies_leave_room:
  "s' \<noteq> s \<Longrightarrow> occupies rs a s \<Longrightarrow> occupies (fst (snd (leave_room s' c n rs))) a s"
  by (auto simp: leave_room_def Let_def occupies_map_entry users_delete_other split: option.splits)

lemma occupies_chat_message:
  "occupies rs a s \<Longrightarrow> occupies (fst (chat_message_h s' c e n msg fd rs)) a s"
  by (auto simp: chat_message_h_def Let_def push_message_def occupies_map_entry split: option.splits)

lemma occupies_delete_message:
  "occupies rs a s \<Longrightarrow> occupies (fst (delete_message s' c n i rs)) a s"
  by (auto simp: delete_message_def Let_def occupies_map_entry split: option.splits)

lemma occupies_disconnect_chat:
  "s' \<noteq> s \<Longrightarrow> occupies rs a s \<Longrightarrow> occupies (fst (disconnect_chat s' c rs)) a s"
  by (auto simp: disconnect_chat_def Let_def occupies_map_entry users_delete_other split: option.splits)

lemma rooms_handle:
  "fst (snd (fst (handle s e r (c, rs, ms)))) =
     (case r of
        Create_room n mx pw \<Rightarrow> fst (create_room c e n mx pw rs)
      | Join_room n pw \<Rightarrow> fst (snd (join_room s c n pw rs))
      | Leave_room n \<Rightarrow> fst (snd (leave_room s c n rs))
      | Chat_message n msg fd \<Rightarrow> fst (chat_message_h s c e n msg fd rs)
      | Delete_message n i \<Rightarrow> fst (delete_message s c n i rs)
      | _ \<Rightarrow> rs)"
  by (cases r) (simp_all split: prod.splits)

lemma occupies_handle:
  "s' \<noteq> s \<Longrightarrow> occupies rs a s \<Longrightarrow> occupies (fst (snd (fst (handle s' e r (c, rs, ms))))) a s"
  unfolding rooms_handle
  by (cases r)
     (simp_all add: occupies_create_room occupies_join_room occupies_leave_room
        occupies_chat_message occupies_delete_message)

lemma rooms_step:
  "rooms (fst (step sv (s, e, i))) =
     (case conns sv s of
        None \<Rightarrow> rooms sv
      | Some c \<Rightarrow>
          (case i of
             Connect \<Rightarrow> rooms sv
           | Request r \<Rightarrow> fst (snd (fst (handle s e r (c, rooms sv, musicRooms sv))))
           | Disconnect \<Rightarrow> fst (disconnect_chat s c (rooms sv))))"
  by (cases i) (auto split: option.splits prod.splits)

lemma occupies_step:
  "s' \<noteq> s \<Longrightarrow> occupies (rooms sv) a s \<Longrightarrow> occupies (rooms (fst (step sv (s', e, i)))) a s"
  unfolding rooms_step
  by (auto simp: occupies_handle occupies_disconnect_chat split: option.splits input.splits)

lemma fst_run_Cons: "fst (run sv (x # xs)) = fst (run (fst (step sv x)) xs)"
  by (simp split: prod.splits)

lemma occupies_run:
  "\<forall>x\<in>set evs. fst x \<noteq> s \<Longrightarrow> occupies (rooms sv) a s \<Longrightarrow> occupies (rooms (fst (run sv evs))) a s"
proof (induction evs arbitrary: sv)
  case Nil
  then show ?case by simp
next
  case (Cons x evs)
  obtain s' e i where x: "x = (s', e, i)" by (cases x)
  with Cons.prems have "s' \<noteq> s" by simp
  then have "occupies (rooms (fst (step sv (s', e, i)))) a s"
    using Cons.prems(2) by (rule occupies_step)
  moreover have "\<forall>x\<in>set evs. fst x \<noteq> s" using Cons.prems(1) by simp
  ultimately have "occupies (rooms (fst (run (fst (step sv (s', e, i))) evs))) a s"
    by (rule Cons.IH[rotated])
  then show ?case by (simp only: fst_run_Cons x)
qed

text \<open>
  C10. \<^verbatim>\<open>'leave room'\<close> empties \<^verbatim>\<open>currentRoom\<close> whatever the room named. So when a connection
  that is an occupant of the room \<open>a\<close> asks to leave another name \<open>b\<close>, it stays in the
  occupant set of \<open>a\<close> while its room reference becomes empty; its disconnection then
  changes no chat room and emits no \<^verbatim>\<open>'user left room'\<close>, and whatever the other
  connections do afterwards, its id stays in the occupant set of \<open>a\<close>.
\<close>

theorem leave_other_room_leaves_stale_occupant:
  fixes sv :: server and s :: sid and e e' :: env
  assumes open_s: "conns sv s = Some c" and occ: "occupies (rooms sv) a s" and ba: "b \<noteq> a"
  defines "sv1 \<equiv> fst (step sv (s, e, Request (Leave_room b)))"
  defines "sv2 \<equiv> fst (step sv1 (s, e', Disconnect))"
  shows "occupies (rooms sv1) a s
     \<and> (\<exists>c1. conns sv1 s = Some c1 \<and> currentRoom c1 = [])
     \<and> rooms sv2 = rooms sv1
     \<and> (\<forall>n u k. Socket_to n (User_left_room u k) \<notin> set (snd (step sv1 (s, e', Disconnect))))
     \<and> (\<forall>evs. (\<forall>x\<in>set evs. fst x \<noteq> s) \<longrightarrow> occupies (rooms (fst (run sv2 evs))) a s)"
proof -
  obtain c1 rs1 out where lr: "leave_room s c b (rooms sv) = (c1, rs1, out)"
    by (cases "leave_room s c b (rooms sv)")
  have c1: "currentRoom c1 = []"
    using lr by (auto simp: leave_room_def Let_def split: prod.splits)
  have sv1: "sv1 = \<lparr>rooms = rs1, musicRooms = musicRooms sv, conns = (conns sv)(s \<mapsto> c1)\<rparr>"
    by (simp add: sv1_def open_s lr)
  have "occupies rs1 a s"
    using occ ba lr
    by (auto simp: leave_room_def Let_def occupies_def map_of_map_entry split: option.splits if_splits)
  then have 1: "occupies (rooms sv1) a s" by (simp add: sv1)
  have 2: "\<exists>c1. conns sv1 s = Some c1 \<and> currentRoom c1 = []" by (simp add: sv1 c1)
  have dc: "disconnect_chat s c1 rs1 = (rs1, [])" by (simp add: disconnect_chat_def c1)
  have 3: "rooms sv2 = rooms sv1"
    by (simp add: sv2_def sv1 dc split: prod.splits)
  have 4: "\<forall>n u k. Socket_to n (User_left_room u k) \<notin> set (snd (step sv1 (s, e', Disconnect)))"
    by (auto simp: sv1 dc disconnect_music_def Let_def split: prod.splits option.splits if_splits)
  have 5: "\<forall>evs. (\<forall>x\<in>set evs. fst x \<noteq> s) \<longrightarrow> occupies (rooms (fst (run sv2 evs))) a s"
    using 1 3 by (auto intro: occupies_run)
  from 1 2 3 4 5 show ?thesis by blast
qed

theorem leave_other_room_leaves_stale_occupant_witness:
  "occupies (rooms (fst (step anna_in_lobby (''x'', tick, Request (Leave_room ''vault''))))) ''lobby'' ''x''
   \<and> rooms (fst (step (fst (step anna_in_lobby (''x'', tick, Request (Leave_room ''vault'')))) (''x'', tick, Disconnect)))
       = rooms (fst (step anna_in_lobby (''x'', tick, Request (Leave_room ''vault''))))"
proof -
  have 1: "conns anna_in_lobby ''x'' = Some \<lparr>currentUser = ''anna'', currentRoom = ''lobby'', currentMusicRoom = []\<rparr>"
    by (simp add: anna_in_lobby_def)
  have 2: "occupies (rooms anna_in_lobby) ''lobby'' ''x''"
    by (simp add: anna_in_lobby_def occupies_def store0_def lobby_def)
  have 3: "''vault'' \<noteq> ''lobby''" by simp
  from leave_other_room_leaves_stale_occupant[OF 1 2 3, of tick tick] show ?thesis by blast
qed

section \<open>Capacity\<close>

lemma list_all_map_entry:
  "list_all (\<lambda>(k, r). P r) rs \<Longrightarrow> (\<And>r. map_of rs k = Some r \<Longrightarrow> P r \<Longrightarrow> P (f r))
     \<Longrightarrow> list_all (\<lambda>(k, r). P r) (AList.map_entry k f rs)"
  by (induction rs) (auto split: if_splits)

lemma list_all_map_of:
  "list_all (\<lambda>(k, r). P r) rs \<Longrightarrow> map_of rs k = Some r \<Longrightarrow> P r"
  by (induction rs) (auto split: if_splits)

lemma list_all_update:
  "list_all (\<lambda>(k, r). P r) rs \<Longrightarrow> P v \<Longrightarrow> list_all (\<lambda>(k, r). P r) (AList.update k v rs)"
  by (induction rs) (auto split: if_splits)

lemma bound_users_delete: "room_capacity_bound r \<Longrightarrow> room_capacity_bound (users_delete s r)"
  using fcard_fminus1_le[of "users r" s]
  by (auto simp: room_capacity_bound_def users_delete_def)

lemma fcard_finsert_Suc: "fcard (finsert x A) \<le> Suc (fcard A)"
  by (simp add: fcard_finsert_if)

lemma below_capacity_Suc:
  fixes m :: rat
  assumes "\<not> m \<le> of_nat k" and "j \<le> Suc k"
  shows "int j \<le> max 0 \<lceil>m\<rceil>"
proof -
  from assms(1) have "of_int (int k) < m" by simp
  then have "int k < \<lceil>m\<rceil>" by (simp only: less_ceiling_iff)
  with assms(2) show ?thesis by simp
qed

lemma bound_users_add:
  assumes "\<not> (truthy_num (maxUsers r) \<and> the (maxUsers r) \<le> of_nat (fcard (users r)))"
  shows "room_capacity_bound (users_add s r)"
  using assms below_capacity_Suc[OF _ fcard_finsert_Suc[of s "users r"], of "the (maxUsers r)"]
  by (auto simp: room_capacity_bound_def users_add_def)

lemma bound_create_room:
  "list_all (\<lambda>(k, r). room_capacity_bound r) rs
     \<Longrightarrow> list_all (\<lambda>(k, r). room_capacity_bound r) (fst (create_room c e n mx pw rs))"
  by (auto simp: create_room_def room_capacity_bound_def fcard_fempty intro!: list_all_update)

lemma bound_leave_previous:
  "list_all (\<lambda>(k, r). room_capacity_bound r) rs
     \<Longrightarrow> list_all (\<lambda>(k, r). room_capacity_bound r) (fst (leave_previous s c rs))"
  by (auto simp: leave_previous_def Let_def bound_users_delete intro!: list_all_map_entry
           split: option.splits)

lemma bound_join_room:
  assumes inv: "list_all (\<lambda>(k, r). room_capacity_bound r) rs"
  shows "list_all (\<lambda>(k, r). room_capacity_bound r) (fst (snd (join_room s c n pw rs)))"
proof (cases "map_of rs n")
  case None
  then show ?thesis using inv by (simp add: join_room_def)
next
  case (Some room)
  show ?thesis
  proof (cases "(truthy_str (password room) \<and> creator room \<noteq> currentUser c
             \<and> (\<not> truthy_str pw \<or> pw \<noteq> password room))
          \<or> (truthy_num (maxUsers room) \<and> the (maxUsers room) \<le> of_nat (fcard (users room)))")
    case True
    then show ?thesis using inv Some by (auto simp: join_room_def)
  next
    case False
    then have res: "fst (snd (join_room s c n pw rs))
        = AList.map_entry n (users_add s) (fst (leave_previous s c rs))"
      using Some by (auto simp: join_room_def Let_def split: prod.splits)
    have "room_capacity_bound (users_add s r1)"
      if r1: "map_of (fst (leave_previous s c rs)) n = Some r1" for r1
    proof -
      from r1 Some have "r1 = room \<or> r1 = users_delete s room"
        by (auto simp: map_of_leave_previous split: if_splits)
      then have "maxUsers r1 = maxUsers room" "fcard (users r1) \<le> fcard (users room)"
        using fcard_fminus1_le[of "users room" s] by (auto simp: users_delete_def)
      with False show ?thesis by (intro bound_users_add) auto
    qed
    then show ?thesis
      unfolding res by (intro list_all_map_entry bound_leave_previous inv)
  qed
qed

lemma bound_leave_room:
  "list_all (\<lambda>(k, r). room_capacity_bound r) rs
     \<Longrightarrow> list_all (\<lambda>(k, r). room_capacity_bound r) (fst (snd (leave_room s c n rs)))"
  by (auto simp: leave_room_def Let_def bound_users_delete intro!: list_all_map_entry
           split: option.splits)

lemma bound_chat_message:
  "list_all (\<lambda>(k, r). room_capacity_bound r) rs
     \<Longrightarrow> list_all (\<lambda>(k, r). room_capacity_bound r) (fst (chat_message_h s c e n msg fd rs))"
  by (auto simp: chat_message_h_def Let_def push_message_def room_capacity_bound_def
           intro!: list_all_map_entry split: option.splits)

lemma bound_delete_message:
  "list_all (\<lambda>(k, r). room_capacity_bound r) rs
     \<Longrightarrow> list_all (\<lambda>(k, r). room_capacity_bound r) (fst (delete_message s c n i rs))"
  by (auto simp: delete_message_def Let_def room_capacity_bound_def
           intro!: list_all_map_entry split: option.splits)

lemma bound_disconnect_chat:
  "list_all (\<lambda>(k, r). room_capacity_bound r) rs
     \<Longrightarrow> list_all (\<lambda>(k, r). room_capacity_bound r) (fst (disconnect_chat s c rs))"
  by (auto simp: disconnect_chat_def Let_def bound_users_delete intro!: list_all_map_entry
           split: option.splits)


lemma map_of_m_leave_previous:
  "map_of (fst (m_leave_previous s c ms)) k =
     (if k = currentMusicRoom c \<and> currentMusicRoom c \<noteq> []
      then map_option (m_users_delete s) (map_of ms k) else map_of ms k)"
  by (auto simp: m_leave_previous_def Let_def map_of_map_entry split: option.splits)

lemma m_bound_users_delete: "music_capacity_bound r \<Longrightarrow> music_capacity_bound (m_users_delete s r)"
  using fcard_fminus1_le[of "m_users r" s]
  by (auto simp: music_capacity_bound_def m_users_delete_def)

lemma m_bound_users_add:
  assumes "\<not> m_maxUsers r \<le> of_nat (fcard (m_users r))"
  shows "music_capacity_bound (m_users_add s r)"
  using below_capacity_Suc[OF assms fcard_finsert_Suc[of s "m_users r"]]
  by (simp add: music_capacity_bound_def m_users_add_def)

lemma m_bound_create:
  "list_all (\<lambda>(k, r). music_capacity_bound r) ms
     \<Longrightarrow> list_all (\<lambda>(k, r). music_capacity_bound r) (fst (create_music_room c e n d mx g ms))"
  by (auto simp: create_music_room_def Let_def music_capacity_bound_def fcard_fempty
           intro!: list_all_update)

lemma m_bound_leave_previous:
  "list_all (\<lambda>(k, r). music_capacity_bound r) ms
     \<Longrightarrow> list_all (\<lambda>(k, r). music_capacity_bound r) (fst (m_leave_previous s c ms))"
  by (auto simp: m_leave_previous_def Let_def m_bound_users_delete intro!: list_all_map_entry
           split: option.splits)

lemma m_bound_join:
  assumes inv: "list_all (\<lambda>(k, r). music_capacity_bound r) ms"
  shows "list_all (\<lambda>(k, r). music_capacity_bound r) (fst (snd (join_music_room s c i ms)))"
proof (cases "map_of ms i")
  case None
  then show ?thesis using inv by (simp add: join_music_room_def)
next
  case (Some room)
  show ?thesis
  proof (cases "m_maxUsers room \<le> of_nat (fcard (m_users room))")
    case True
    then show ?thesis using inv Some by (auto simp: join_music_room_def)
  next
    case False
    then have res: "fst (snd (join_music_room s c i ms))
        = AList.map_entry i (m_users_add s) (fst (m_leave_previous s c ms))"
      using Some by (auto simp: join_music_room_def Let_def split: prod.splits)
    have "music_capacity_bound (m_users_add s r1)"
      if r1: "map_of (fst (m_leave_previous s c ms)) i = Some r1" for r1
    proof -
      from r1 Some have "r1 = room \<or> r1 = m_users_delete s room"
        by (auto simp: map_of_m_leave_previous split: if_splits)
      then have "m_maxUsers r1 = m_maxUsers room" "fcard (m_users r1) \<le> fcard (m_users room)"
        using fcard_fminus1_le[of "m_users room" s] by (auto simp: m_users_delete_def)
      with False show ?thesis by (intro m_bound_users_add) auto
    qed
    then show ?thesis
      unfolding res by (intro list_all_map_entry m_bound_leave_previous inv)
  qed
qed

lemma m_bound_leave:
  "list_all (\<lambda>(k, r). music_capacity_bound r) ms
     \<Longrightarrow> list_all (\<lambda>(k, r). music_capacity_bound r) (fst (snd (leave_music_room s c i ms)))"
  by (auto simp: leave_music_room_def Let_def m_bound_users_delete intro!: list_all_map_entry
           split: option.splits)

lemma m_bound_chat:
  "list_all (\<lambda>(k, r). music_capacity_bound r) ms
     \<Longrightarrow> list_all (\<lambda>(k, r). music_capacity_bound r) (fst (music_chat_message s c e i msg u ts ms))"
  by (auto simp: music_chat_message_def Let_def m_push_message_def music_capacity_bound_def
           intro!: list_all_map_entry split: option.splits)

lemma m_bound_voice:
  "list_all (\<lambda>(k, r). music_capacity_bound r) ms
     \<Longrightarrow> list_all (\<lambda>(k, r). music_capacity_bound r) (fst (music_voice_message s c e i u ts a ms))"
  by (auto simp: music_voice_message_def Let_def music_capacity_bound_def
           intro!: list_all_map_entry split: option.splits)

lemma m_bound_uploaded:
  "list_all (\<lambda>(k, r). music_capacity_bound r) ms
     \<Longrightarrow> list_all (\<lambda>(k, r). music_capacity_bound r) (fst (music_uploaded s c e i d ms))"
  by (auto simp: music_uploaded_def Let_def music_capacity_bound_def
           intro!: list_all_map_entry split: option.splits)

lemma m_bound_play:
  "list_all (\<lambda>(k, r). music_capacity_bound r) ms
     \<Longrightarrow> list_all (\<lambda>(k, r). music_capacity_bound r) (fst (play_track s e i t ms))"
  by (auto simp: play_track_def Let_def music_capacity_bound_def
           intro!: list_all_map_entry split: option.splits)

lemma m_bound_toggle:
  "list_all (\<lambda>(k, r). music_capacity_bound r) ms
     \<Longrightarrow> list_all (\<lambda>(k, r). music_capacity_bound r) (fst (toggle_playback s e i ms))"
  by (auto simp: toggle_playback_def toggle_def Let_def music_capacity_bound_def
           intro!: list_all_map_entry split: option.splits)

lemma m_bound_disconnect:
  "list_all (\<lambda>(k, r). music_capacity_bound r) ms
     \<Longrightarrow> list_all (\<lambda>(k, r). music_capacity_bound r) (fst (disconnect_music s c ms))"
  by (auto simp: disconnect_music_def Let_def m_bound_users_delete intro!: list_all_map_entry
           split: option.splits)

lemma musicRooms_handle:
  "snd (snd (fst (handle s e r (c, rs, ms)))) =
     (case r of
        Create_music_room n d mx g \<Rightarrow> fst (create_music_room c e n d mx g ms)
      | Join_music_room i \<Rightarrow> fst (snd (join_music_room s c i ms))
      | Leave_music_room i \<Rightarrow> fst (snd (leave_music_room s c i ms))
      | Music_chat_message i msg u ts \<Rightarrow> fst (music_chat_message s c e i msg u ts ms)
      | Music_voice_message i u ts a \<Rightarrow> fst (music_voice_message s c e i u ts a ms)
      | Music_uploaded i d \<Rightarrow> fst (music_uploaded s c e i d ms)
      | Play_track i t \<Rightarrow> fst (play_track s e i t ms)
      | Toggle_playback i \<Rightarrow> fst (toggle_playback s e i ms)
      | _ \<Rightarrow> ms)"
  by (cases r) (simp_all split: prod.splits)

lemma musicRooms_step:
  "musicRooms (fst (step sv (s, e, i))) =
     (case conns sv s of
        None \<Rightarrow> musicRooms sv
      | Some c \<Rightarrow>
          (case i of
             Connect \<Rightarrow> musicRooms sv
           | Request r \<Rightarrow> snd (snd (fst (handle s e r (c, rooms sv, musicRooms sv))))
           | Disconnect \<Rightarrow> fst (disconnect_music s c (musicRooms sv))))"
  by (cases i) (auto split: option.splits prod.splits)

lemma bound_handle:
  "list_all (\<lambda>(k, r). room_capacity_bound r) rs
     \<Longrightarrow> list_all (\<lambda>(k, r). room_capacity_bound r) (fst (snd (fst (handle s e r (c, rs, ms)))))"
  unfolding rooms_handle
  by (cases r)
     (simp_all add: bound_create_room bound_join_room bound_leave_room bound_chat_message
        bound_delete_message)

lemma m_bound_handle:
  "list_all (\<lambda>(k, r). music_capacity_bound r) ms
     \<Longrightarrow> list_all (\<lambda>(k, r). music_capacity_bound r) (snd (snd (fst (handle s e r (c, rs, ms)))))"
  unfolding musicRooms_handle
  by (cases r)
     (simp_all add: m_bound_create m_bound_join m_bound_leave m_bound_chat m_bound_voice
        m_bound_uploaded m_bound_play m_bound_toggle)

lemma capacity_bound_step: "capacity_bound sv \<Longrightarrow> capacity_bound (fst (step sv x))"
proof -
  assume a: "capacity_bound sv"
  obtain s e i where x: "x = (s, e, i)" by (cases x)
  from a show ?thesis
    unfolding capacity_bound_def x rooms_step musicRooms_step
    by (auto simp: bound_handle m_bound_handle bound_disconnect_chat m_bound_disconnect
             split: option.splits input.splits)
qed

lemma capacity_bound_run: "capacity_bound sv \<Longrightarrow> capacity_bound (fst (run sv evs))"
proof (induction evs arbitrary: sv)
  case Nil
  then show ?case by simp
next
  case (Cons x evs)
  then show ?case by (simp only: fst_run_Cons capacity_bound_step)
qed

lemma capacity_bound_init: "capacity_bound init"
  by (simp add: capacity_bound_def init_def)

lemma whole_capacity:
  fixes m :: rat
  assumes "int j \<le> max 0 \<lceil>m\<rceil>" and "m = of_nat k"
  shows "j \<le> k"
  using assms by simp

text \<open>
  C3, as the code has it. \<^verbatim>\<open>maxUsers\<close> is stored as it is sent, whatever number it is. In
  every state that the server reaches, a chat room whose \<^verbatim>\<open>maxUsers\<close> is set and every
  music room has at most as many occupants as \<^verbatim>\<open>maxUsers\<close> rounded up to a whole number,
  and none when it is negative; so at most \<^verbatim>\<open>maxUsers\<close> whenever that is a whole number
  that is not negative. A join request that finds the number of occupants at or above
  \<^verbatim>\<open>maxUsers\<close> is rejected and changes nothing: a music room answers that it is full; a
  chat room answers so when the password check passes, and answers that the password is
  wrong when it does not, since it checks the password first.
\<close>

theorem capacity_never_exceeded:
  "capacity_bound (fst (run init evs))
   \<and> (\<forall>a r k. map_of (rooms (fst (run init evs))) a = Some r \<and> maxUsers r = Some (of_nat k) \<and> k \<noteq> 0
         \<longrightarrow> fcard (users r) \<le> k)
   \<and> (\<forall>b r k. map_of (musicRooms (fst (run init evs))) b = Some r \<and> m_maxUsers r = of_nat k
         \<longrightarrow> fcard (m_users r) \<le> k)
   \<and> (\<forall>room. map_of rs n = Some room \<and> truthy_num (maxUsers room)
          \<and> the (maxUsers room) \<le> of_nat (fcard (users room))
        \<longrightarrow> join_room s c n pw rs
              = (c, rs,
                 [Socket_emit (Room_join_error
                    (if truthy_str (password room) \<and> creator room \<noteq> currentUser c
                        \<and> (\<not> truthy_str pw \<or> pw \<noteq> password room)
                     then Wrong_password else Room_full (the (maxUsers room))))]))
   \<and> (\<forall>room. map_of ms i = Some room \<and> m_maxUsers room \<le> of_nat (fcard (m_users room))
        \<longrightarrow> join_music_room s c i ms
              = (c, ms, [Socket_emit (Music_room_join_error (Music_room_full (m_maxUsers room)))]))"
proof (intro conjI allI impI)
  have inv: "capacity_bound (fst (run init evs))"
    by (rule capacity_bound_run[OF capacity_bound_init])
  show "capacity_bound (fst (run init evs))" by (rule inv)
  show "fcard (users r) \<le> k"
    if h: "map_of (rooms (fst (run init evs))) a = Some r \<and> maxUsers r = Some (of_nat k) \<and> k \<noteq> 0"
    for a r k
  proof -
    from inv h have "room_capacity_bound r"
      by (auto simp: capacity_bound_def dest: list_all_map_of)
    with h have "int (fcard (users r)) \<le> max 0 \<lceil>the (maxUsers r)\<rceil>"
      by (simp add: room_capacity_bound_def)
    with h show ?thesis by (intro whole_capacity[of _ "the (maxUsers r)"]) simp_all
  qed
  show "fcard (m_users r) \<le> k"
    if h: "map_of (musicRooms (fst (run init evs))) b = Some r \<and> m_maxUsers r = of_nat k"
    for b r k
  proof -
    from inv h have "music_capacity_bound r"
      by (auto simp: capacity_bound_def dest: list_all_map_of)
    with h show ?thesis
      by (intro whole_capacity[of _ "m_maxUsers r"]) (simp_all add: music_capacity_bound_def)
  qed
next
  fix room
  assume "map_of rs n = Some room \<and> truthy_num (maxUsers room)
          \<and> the (maxUsers room) \<le> of_nat (fcard (users room))"
  then show "join_room s c n pw rs
              = (c, rs,
                 [Socket_emit (Room_join_error
                    (if truthy_str (password room) \<and> creator room \<noteq> currentUser c
                        \<and> (\<not> truthy_str pw \<or> pw \<noteq> password room)
                     then Wrong_password else Room_full (the (maxUsers room))))])"
    by (auto simp: join_room_def)
next
  fix room
  assume "map_of ms i = Some room \<and> m_maxUsers room \<le> of_nat (fcard (m_users room))"
  then show "join_music_room s c i ms
              = (c, ms, [Socket_emit (Music_room_join_error (Music_room_full (m_maxUsers room)))])"
    by (simp add: join_music_room_def)
qed

theorem capacity_never_exceeded_witness:
  "capacity_bound (fst (run init lobby_trace))
   \<and> map_option (\<lambda>r. (fcard (users r), maxUsers r)) (map_of (rooms (fst (run init lobby_trace))) ''lobby'')
       = Some (2, Some 2)
   \<and> map_option (\<lambda>r. fcard (users r) \<le> 2) (map_of (rooms (fst (run init lobby_trace))) ''lobby'')
       = Some True
   \<and> join_room ''z'' anna ''lobby'' None store0
       = (anna, store0, [Socket_emit (Room_join_error (Room_full 2))])
   \<and> join_room ''z'' anna ''locked'' (Some ''guess'') store1
       = (anna, store1, [Socket_emit (Room_join_error Wrong_password)])
   \<and> join_music_room ''z'' anna ''studio-1'' mstore0
       = (anna, mstore0, [Socket_emit (Music_room_join_error (Music_room_full 1))])"
proof -
  note t = capacity_never_exceeded
  note t0 = t[where evs = lobby_trace and rs = store0 and n = "''lobby''"
      and s = "''z''" and c = anna and pw = None and ms = mstore0 and i = "''studio-1''"]
  note t1 = t[where evs = lobby_trace and rs = store1 and n = "''locked''"
      and s = "''z''" and c = anna and pw = "Some ''guess''" and ms = mstore0 and i = "''studio-1''"]
  have 1: "map_of store0 ''lobby'' = Some lobby \<and> truthy_num (maxUsers lobby)
          \<and> the (maxUsers lobby) \<le> of_nat (fcard (users lobby))"
    by (simp add: store0_def lobby_def fcard_finsert_if)
  have 2: "map_of mstore0 ''studio-1'' = Some studio \<and> m_maxUsers studio \<le> of_nat (fcard (m_users studio))"
    by (simp add: mstore0_def studio_def fcard_finsert_if fcard_fempty)
  have 3: "map_of store1 ''locked'' = Some locked \<and> truthy_num (maxUsers locked)
          \<and> the (maxUsers locked) \<le> of_nat (fcard (users locked))"
    by (simp add: store1_def locked_def fcard_finsert_if fcard_fempty)
  have a: "capacity_bound (fst (run init lobby_trace))" using t0 by blast
  have b: "map_option (\<lambda>r. (fcard (users r), maxUsers r)) (map_of (rooms (fst (run init lobby_trace))) ''lobby'')
       = Some (2, Some 2)"
    by (simp add: lobby_trace_def init_def create_room_def join_room_def leave_previous_def
          or_null_num_def or_null_str_def users_size_def users_add_def users_delete_def Let_def
          fcard_finsert_if fcard_fempty)
  from b obtain r where r: "map_of (rooms (fst (run init lobby_trace))) ''lobby'' = Some r"
    and m: "maxUsers r = Some (of_nat 2)"
    by auto
  from t0 have "\<forall>a r k. map_of (rooms (fst (run init lobby_trace))) a = Some r
        \<and> maxUsers r = Some (of_nat k) \<and> k \<noteq> 0 \<longrightarrow> fcard (users r) \<le> k"
    by blast
  then have "map_of (rooms (fst (run init lobby_trace))) ''lobby'' = Some r
        \<and> maxUsers r = Some (of_nat 2) \<and> (2::nat) \<noteq> 0 \<longrightarrow> fcard (users r) \<le> 2"
    by blast
  with r m have "fcard (users r) \<le> 2" by simp
  with r have b': "map_option (\<lambda>r. fcard (users r) \<le> 2)
        (map_of (rooms (fst (run init lobby_trace))) ''lobby'') = Some True"
    by simp
  from t0 1 have "join_room ''z'' anna ''lobby'' None store0
       = (anna, store0,
          [Socket_emit (Room_join_error
             (if truthy_str (password lobby) \<and> creator lobby \<noteq> currentUser anna
                 \<and> (\<not> truthy_str None \<or> None \<noteq> password lobby)
              then Wrong_password else Room_full (the (maxUsers lobby))))])"
    by blast
  then have c: "join_room ''z'' anna ''lobby'' None store0
       = (anna, store0, [Socket_emit (Room_join_error (Room_full 2))])"
    by (simp add: lobby_def)
  from t1 3 have "join_room ''z'' anna ''locked'' (Some ''guess'') store1
       = (anna, store1,
          [Socket_emit (Room_join_error
             (if truthy_str (password locked) \<and> creator locked \<noteq> currentUser anna
                 \<and> (\<not> truthy_str (Some ''guess'') \<or> Some ''guess'' \<noteq> password locked)
              then Wrong_password else Room_full (the (maxUsers locked))))])"
    by blast
  then have c': "join_room ''z'' anna ''locked'' (Some ''guess'') store1
       = (anna, store1, [Socket_emit (Room_join_error Wrong_password)])"
    by (simp add: locked_def anna_def)
  from t0 2 have "join_music_room ''z'' anna ''studio-1'' mstore0
       = (anna, mstore0, [Socket_emit (Music_room_join_error (Music_room_full (m_maxUsers studio)))])"
    by blast
  then have d: "join_music_room ''z'' anna ''studio-1'' mstore0
       = (anna, mstore0, [Socket_emit (Music_room_join_error (Music_room_full 1))])"
    by (simp add: studio_def)
  from a b b' c c' d show ?thesis by blast
qed

text \<open>
  C3, as it is stated, fails in three ways. A room created with \<^verbatim>\<open>maxUsers = 1.5\<close> lets two
  connections in, since neither zero nor one has reached one and a half. A room created
  with \<^verbatim>\<open>maxUsers = -1\<close> has zero occupants, which is more. And a request to join a full
  room that has a password, with a wrong password, is answered that the password is
  wrong, not that the room is full.
\<close>

theorem capacity_kept_counterexample:
  "\<not> capacity_kept (fst (run init fractional_capacity_trace))
   \<and> map_option (\<lambda>r. (fcard (users r), maxUsers r))
        (map_of (rooms (fst (run init fractional_capacity_trace))) ''attic'') = Some (2, Some (3 / 2))
   \<and> \<not> capacity_kept (fst (run init negative_capacity_trace))
   \<and> map_option (\<lambda>r. (fcard (users r), maxUsers r)) (map_of store1 ''locked'') = Some (1, Some 1)
   \<and> join_room ''z'' anna ''locked'' (Some ''guess'') store1
       = (anna, store1, [Socket_emit (Room_join_error Wrong_password)])"
proof -
  have a: "rooms (fst (run init fractional_capacity_trace))
      = [(''attic'', \<lparr>name = ''attic'', users = {|''y'', ''x''|}, messages = [], maxUsers = Some (3 / 2),
            password = None, creator = [], createdAt = 1000\<rparr>)]"
    by (simp add: fractional_capacity_trace_def init_def create_room_def join_room_def
          leave_previous_def or_null_num_def or_null_str_def users_size_def users_add_def
          users_delete_def Let_def fcard_finsert_if fcard_fempty tick_def)
  have 1: "\<not> capacity_kept (fst (run init fractional_capacity_trace))"
    by (simp add: capacity_kept_def a room_capacity_kept_def fcard_finsert_if fcard_fempty)
  have 2: "map_option (\<lambda>r. (fcard (users r), maxUsers r))
        (map_of (rooms (fst (run init fractional_capacity_trace))) ''attic'') = Some (2, Some (3 / 2))"
    by (simp add: a fcard_finsert_if fcard_fempty)
  have 3: "\<not> capacity_kept (fst (run init negative_capacity_trace))"
    by (simp add: negative_capacity_trace_def capacity_kept_def room_capacity_kept_def init_def
          create_room_def or_null_num_def or_null_str_def fcard_fempty)
  have 4: "map_option (\<lambda>r. (fcard (users r), maxUsers r)) (map_of store1 ''locked'') = Some (1, Some 1)"
    by (simp add: store1_def locked_def fcard_finsert_if fcard_fempty)
  have 5: "join_room ''z'' anna ''locked'' (Some ''guess'') store1
       = (anna, store1, [Socket_emit (Room_join_error Wrong_password)])"
    by (simp add: join_room_def store1_def locked_def anna_def)
  from 1 2 3 4 5 show ?thesis by blast
qed

lemma slice_last_append: "slice_last n (slice_last n xs @ ys) = slice_last n (xs @ ys)"
proof (cases "length xs \<le> n")
  case True
  then show ?thesis by (simp add: slice_last_def)
next
  case False
  then show ?thesis by (simp add: slice_last_def add.commute)
qed

lemma messages_push:
  "messages (push_message m r) = slice_last 100 (messages r @ [m])"
  by (simp add: push_message_def Let_def slice_last_def)

lemma length_slice_last: "length (slice_last n xs) \<le> n"
  by (simp add: slice_last_def)

lemma users_push: "users (push_message m r) = users r"
  by (simp add: push_message_def Let_def)

lemma chat_message_occupant:
  "map_of rs n = Some room \<Longrightarrow> s |\<in>| users room
     \<Longrightarrow> map_of (fst (chat_message_h s c e n msg fd rs)) n
           = Some (push_message (posted (s, c, e, msg, fd)) room)"
  by (simp add: chat_message_h_def Let_def map_of_map_entry)

lemma send_all_history:
  "map_of rs n = Some room \<Longrightarrow> \<forall>p\<in>set ps. fst p |\<in>| users room
     \<Longrightarrow> \<exists>room'. map_of (send_all n ps rs) n = Some room' \<and> users room' = users room
           \<and> slice_last 100 (messages room') = slice_last 100 (messages room @ map posted ps)
           \<and> (ps \<noteq> [] \<longrightarrow> messages room' = slice_last 100 (messages room @ map posted ps))"
proof (induction ps arbitrary: rs room)
  case Nil
  then show ?case by simp
next
  case (Cons p ps)
  obtain s c e msg fd where p: "p = (s, c, e, msg, fd)" by (cases p)
  let ?r1 = "push_message (posted p) room"
  from Cons.prems p have r1: "map_of (fst (chat_message_h s c e n msg fd rs)) n = Some ?r1"
    by (simp add: chat_message_occupant)
  have "\<forall>q\<in>set ps. fst q |\<in>| users ?r1" using Cons.prems(2) by (simp add: users_push)
  from Cons.IH[OF r1 this] obtain room' where
    a: "map_of (send_all n ps (fst (chat_message_h s c e n msg fd rs))) n = Some room'"
    and u: "users room' = users ?r1"
    and m: "slice_last 100 (messages room') = slice_last 100 (messages ?r1 @ map posted ps)"
    and m': "ps \<noteq> [] \<longrightarrow> messages room' = slice_last 100 (messages ?r1 @ map posted ps)"
    by blast
  have eq: "slice_last 100 (messages ?r1 @ map posted ps)
      = slice_last 100 (messages room @ map posted (p # ps))"
    by (simp add: messages_push slice_last_append)
  have "messages room' = slice_last 100 (messages room @ map posted (p # ps))"
  proof (cases "ps = []")
    case True
    then have "room' = ?r1" using a r1 by simp
    then show ?thesis using True by (simp add: messages_push)
  next
    case False
    then show ?thesis using m' eq by simp
  qed
  then show ?case using a u m eq by (simp add: p users_push)
qed

lemma length_splice1: "length (splice1 i xs) \<le> length xs"
  by (simp add: splice1_def)

lemma hist_create_room:
  "list_all (\<lambda>(k, r). length (messages r) \<le> 100) rs
     \<Longrightarrow> list_all (\<lambda>(k, r). length (messages r) \<le> 100) (fst (create_room c e n mx pw rs))"
  by (auto simp: create_room_def intro!: list_all_update)

lemma hist_leave_previous:
  "list_all (\<lambda>(k, r). length (messages r) \<le> 100) rs
     \<Longrightarrow> list_all (\<lambda>(k, r). length (messages r) \<le> 100) (fst (leave_previous s c rs))"
  by (auto simp: leave_previous_def Let_def users_delete_def intro!: list_all_map_entry
           split: option.splits)

lemma rooms_join_room:
  "fst (snd (join_room s c n pw rs)) = rs
   \<or> fst (snd (join_room s c n pw rs))
        = AList.map_entry n (users_add s) (fst (leave_previous s c rs))"
  by (auto simp: join_room_def Let_def split: option.splits prod.splits)

lemma hist_join_room:
  assumes "list_all (\<lambda>(k, r). length (messages r) \<le> 100) rs"
  shows "list_all (\<lambda>(k, r). length (messages r) \<le> 100) (fst (snd (join_room s c n pw rs)))"
proof -
  have "list_all (\<lambda>(k, r). length (messages r) \<le> 100)
          (AList.map_entry n (users_add s) (fst (leave_previous s c rs)))"
    by (rule list_all_map_entry[OF hist_leave_previous[OF assms]]) (simp add: users_add_def)
  with assms rooms_join_room[of s c n pw rs] show ?thesis by auto
qed

lemma hist_leave_room:
  "list_all (\<lambda>(k, r). length (messages r) \<le> 100) rs
     \<Longrightarrow> list_all (\<lambda>(k, r). length (messages r) \<le> 100) (fst (snd (leave_room s c n rs)))"
  by (auto simp: leave_room_def Let_def users_delete_def intro!: list_all_map_entry
           split: option.splits)

lemma hist_chat_message:
  "list_all (\<lambda>(k, r). length (messages r) \<le> 100) rs
     \<Longrightarrow> list_all (\<lambda>(k, r). length (messages r) \<le> 100) (fst (chat_message_h s c e n msg fd rs))"
  by (auto simp: chat_message_h_def Let_def messages_push length_slice_last
           intro!: list_all_map_entry split: option.splits)

lemma rooms_delete_message:
  "fst (delete_message s c n i rs) = rs
   \<or> (\<exists>j. fst (delete_message s c n i rs)
              = AList.map_entry n (\<lambda>r. r\<lparr>messages := splice1 j (messages r)\<rparr>) rs)"
  by (auto simp: delete_message_def Let_def split: option.splits)

lemma hist_splice:
  assumes "list_all (\<lambda>(k, r). length (messages r) \<le> 100) rs"
  shows "list_all (\<lambda>(k, r). length (messages r) \<le> 100)
           (AList.map_entry n (\<lambda>r. r\<lparr>messages := splice1 j (messages r)\<rparr>) rs)"
  by (rule list_all_map_entry[OF assms]) (simp add: splice1_def)

lemma hist_delete_message:
  assumes "list_all (\<lambda>(k, r). length (messages r) \<le> 100) rs"
  shows "list_all (\<lambda>(k, r). length (messages r) \<le> 100) (fst (delete_message s c n i rs))"
  using rooms_delete_message[of s c n i rs] assms hist_splice[OF assms] by auto

lemma hist_disconnect_chat:
  "list_all (\<lambda>(k, r). length (messages r) \<le> 100) rs
     \<Longrightarrow> list_all (\<lambda>(k, r). length (messages r) \<le> 100) (fst (disconnect_chat s c rs))"
  by (auto simp: disconnect_chat_def Let_def users_delete_def intro!: list_all_map_entry
           split: option.splits)

lemma hist_handle:
  "list_all (\<lambda>(k, r). length (messages r) \<le> 100) rs
     \<Longrightarrow> list_all (\<lambda>(k, r). length (messages r) \<le> 100) (fst (snd (fst (handle s e r (c, rs, ms)))))"
  unfolding rooms_handle
  by (cases r)
     (simp_all add: hist_create_room hist_join_room hist_leave_room hist_chat_message
        hist_delete_message)

lemma history_bounded_step: "history_bounded sv \<Longrightarrow> history_bounded (fst (step sv x))"
proof -
  assume a: "history_bounded sv"
  obtain s e i where x: "x = (s, e, i)" by (cases x)
  from a show ?thesis
    unfolding history_bounded_def x rooms_step
    by (auto simp: hist_handle hist_disconnect_chat split: option.splits input.splits)
qed

lemma history_bounded_run: "history_bounded sv \<Longrightarrow> history_bounded (fst (run sv evs))"
proof (induction evs arbitrary: sv)
  case Nil
  then show ?case by simp
next
  case (Cons x evs)
  then show ?case by (simp only: fst_run_Cons history_bounded_step)
qed

text \<open>
  C4. In every state that the server reaches, the history of every chat room holds at
  most 100 messages. After any sequence of accepted posts to a room, its history is the
  last 100 entries of the old history followed by the posted messages, in the order of
  posting: all the posted messages when the room started empty and at most 100 were
  posted, and otherwise the oldest entries are the ones that are gone.
\<close>

theorem history_keeps_last_hundred:
  "history_bounded (fst (run init evs))
   \<and> (\<forall>room. map_of rs n = Some room \<and> length (messages room) \<le> 100
          \<and> (\<forall>p\<in>set ps. fst p |\<in>| users room)
        \<longrightarrow> (\<exists>room'. map_of (send_all n ps rs) n = Some room'
              \<and> messages room'
                  = drop (length (messages room @ map posted ps) - 100) (messages room @ map posted ps)
              \<and> length (messages room') \<le> 100
              \<and> (messages room = [] \<and> length ps \<le> 100 \<longrightarrow> messages room' = map posted ps)))"
proof (intro conjI allI impI)
  have "history_bounded init" by (simp add: history_bounded_def init_def)
  then show "history_bounded (fst (run init evs))" by (rule history_bounded_run)
next
  fix room
  assume a: "map_of rs n = Some room \<and> length (messages room) \<le> 100
          \<and> (\<forall>p\<in>set ps. fst p |\<in>| users room)"
  then obtain room' where r: "map_of (send_all n ps rs) n = Some room'"
    and m: "slice_last 100 (messages room') = slice_last 100 (messages room @ map posted ps)"
    and m': "ps \<noteq> [] \<longrightarrow> messages room' = slice_last 100 (messages room @ map posted ps)"
    using send_all_history[of rs n room ps] by blast
  have eq: "messages room' = slice_last 100 (messages room @ map posted ps)"
  proof (cases "ps = []")
    case True
    then have "room' = room" using r a by simp
    then show ?thesis using True a by (simp add: slice_last_def)
  next
    case False
    then show ?thesis using m' by simp
  qed
  have 1: "messages room'
      = drop (length (messages room @ map posted ps) - 100) (messages room @ map posted ps)"
    using eq by (simp add: slice_last_def)
  have 2: "length (messages room') \<le> 100"
    unfolding eq by (rule length_slice_last)
  have 3: "messages room = [] \<and> length ps \<le> 100 \<longrightarrow> messages room' = map posted ps"
    using 1 by auto
  from r 1 2 3 show "\<exists>room'. map_of (send_all n ps rs) n = Some room'
              \<and> messages room'
                  = drop (length (messages room @ map posted ps) - 100) (messages room @ map posted ps)
              \<and> length (messages room') \<le> 100
              \<and> (messages room = [] \<and> length ps \<le> 100 \<longrightarrow> messages room' = map posted ps)"
    by blast
qed

theorem history_keeps_last_hundred_witness:
  "\<exists>room'. map_of (send_all ''lobby'' [one_more] crowded) ''lobby'' = Some room'
      \<and> messages room' = replicate 99 hello @ [posted one_more]
      \<and> length (messages room') \<le> 100"
proof -
  have 1: "map_of crowded ''lobby'' = Some (lobby\<lparr>messages := replicate 100 hello\<rparr>)
        \<and> length (messages (lobby\<lparr>messages := replicate 100 hello\<rparr>)) \<le> 100
        \<and> (\<forall>p\<in>set [one_more]. fst p |\<in>| users (lobby\<lparr>messages := replicate 100 hello\<rparr>))"
    by (simp add: crowded_def lobby_def one_more_def)
  have 2: "drop (length (messages (lobby\<lparr>messages := replicate 100 hello\<rparr>) @ map posted [one_more]) - 100)
             (messages (lobby\<lparr>messages := replicate 100 hello\<rparr>) @ map posted [one_more])
        = replicate 99 hello @ [posted one_more]"
    by simp
  from history_keeps_last_hundred[where rs = crowded and n = "''lobby''" and ps = "[one_more]"] 1
  obtain room' where "map_of (send_all ''lobby'' [one_more] crowded) ''lobby'' = Some room'"
    "messages room'
       = drop (length (messages (lobby\<lparr>messages := replicate 100 hello\<rparr>) @ map posted [one_more]) - 100)
             (messages (lobby\<lparr>messages := replicate 100 hello\<rparr>) @ map posted [one_more])"
    "length (messages room') \<le> 100"
    by blast
  with 2 show ?thesis by auto
qed

section \<open>One chat room at a time\<close>

lemmas chat_defs = create_room_def join_room_def leave_room_def leave_previous_def
     or_null_num_def or_null_str_def users_size_def users_add_def users_delete_def Let_def
     occupies_def init_def

text \<open>
  C2 fails on the code. After joining \<open>A\<close>, a \<^verbatim>\<open>'leave room'\<close> for the room \<open>B\<close> empties
  \<^verbatim>\<open>currentRoom\<close> although the connection stays in \<open>A\<close>; the join of \<open>B\<close> that follows finds
  no room to leave, and the connection is an occupant of both rooms.
\<close>

theorem two_rooms_at_once:
  "occupies (rooms (fst (run init two_rooms_trace))) ''A'' ''x''
   \<and> occupies (rooms (fst (run init two_rooms_trace))) ''B'' ''x''"
  by (simp add: two_rooms_trace_def chat_defs)

text \<open>
  C8 fails on the code. A connection in the room \<open>A\<close> that asks to leave the room \<open>B\<close>, which
  does not exist, gets no answer, but the state of the server is not the same: its
  \<^verbatim>\<open>currentRoom\<close> was \<open>A\<close> and is empty afterwards.
\<close>

theorem leave_other_room_changes_state:
  "\<not> occupies (rooms (fst (run init leave_other_trace))) ''B'' ''x''
   \<and> map_option currentRoom (conns (fst (run init leave_other_trace)) ''x'') = Some ''A''
   \<and> map_option currentRoom
        (conns (fst (step (fst (run init leave_other_trace)) (''x'', tick, Request (Leave_room ''B'')))) ''x'')
       = Some []
   \<and> step (fst (run init leave_other_trace)) (''x'', tick, Request (Leave_room ''B''))
       \<noteq> (fst (run init leave_other_trace), [])"
proof -
  have a: "\<not> occupies (rooms (fst (run init leave_other_trace))) ''B'' ''x''"
    by (simp add: leave_other_trace_def chat_defs)
  have b: "map_option currentRoom (conns (fst (run init leave_other_trace)) ''x'') = Some ''A''"
    by (simp add: leave_other_trace_def chat_defs)
  have c: "map_option currentRoom
        (conns (fst (step (fst (run init leave_other_trace)) (''x'', tick, Request (Leave_room ''B'')))) ''x'')
       = Some []"
    by (simp add: leave_other_trace_def chat_defs)
  from b c have "step (fst (run init leave_other_trace)) (''x'', tick, Request (Leave_room ''B''))
       \<noteq> (fst (run init leave_other_trace), [])"
    by (metis fst_conv list.distinct(1) option.inject)
  with a b c show ?thesis by blast
qed

section \<open>Toggling the playback\<close>

lemma toggle_fields:
  "isPlaying (toggle e r) = (\<not> isPlaying r)"
  "playStartTime (toggle e r) = (if isPlaying r then playStartTime r else Some (now e))"
  "m_users (toggle e r) = m_users r"
  by (simp_all add: toggle_def Let_def)

lemma toggle_eq:
  "toggle e r = r\<lparr>isPlaying := \<not> isPlaying r,
                  playStartTime := (if isPlaying r then playStartTime r else Some (now e))\<rparr>"
  by (simp add: toggle_def Let_def)

lemma toggle_playback_occupant:
  "map_of ms i = Some room \<Longrightarrow> s |\<in>| m_users room
     \<Longrightarrow> toggle_playback s e i ms
          = (AList.map_entry i (toggle e) ms,
             [Io_to i (Playback_toggled (isPlaying (toggle e room)) (playStartTime (toggle e room)))])"
  by (simp add: toggle_playback_def)

lemma play_track_occupant:
  "map_of ms i = Some room \<Longrightarrow> s |\<in>| m_users room
     \<Longrightarrow> find (\<lambda>t. track_id t = trackId) (playlist room) = Some tr
     \<Longrightarrow> map_of (fst (play_track s e i trackId ms)) i
          = Some (room\<lparr>currentTrack := Some tr, isPlaying := True, playStartTime := Some (now e)\<rparr>)"
  by (simp add: play_track_def map_of_map_entry)

text \<open>
  C9, as the code has it. A \<^verbatim>\<open>'toggle playback'\<close> request of an occupant of a music room
  flips \<^verbatim>\<open>isPlaying\<close>, sets \<^verbatim>\<open>playStartTime\<close> to the clock reading of the request when the
  flip is to playing and leaves it as it was otherwise, and changes nothing else. It
  emits the new flag and start time once, with \<^verbatim>\<open>io.to(roomId)\<close>: the sockets that receive
  it are those in the channel named by the room id. After a play (which stamps the
  reading of the play), a toggle (pause) and a second toggle (resume), the start time is
  the clock reading of the resume: it is strictly greater than the stamp of the play
  exactly when the clock reading of the resume is strictly greater than the one of the
  play.
\<close>

theorem toggle_playback_flips_and_restamps:
  fixes ms :: music_store and e e_play e_pause e_resume :: env
  assumes room: "map_of ms i = Some room" and occ: "s |\<in>| m_users room"
  shows "map_of (fst (toggle_playback s e i ms)) i
           = Some (room\<lparr>isPlaying := \<not> isPlaying room,
                        playStartTime := (if isPlaying room then playStartTime room else Some (now e))\<rparr>)
     \<and> (\<forall>k. k \<noteq> i \<longrightarrow> map_of (fst (toggle_playback s e i ms)) k = map_of ms k)
     \<and> snd (toggle_playback s e i ms)
           = [Io_to i (Playback_toggled (\<not> isPlaying room)
                         (if isPlaying room then playStartTime room else Some (now e)))]
     \<and> (\<forall>nt c. conns (srv nt) s = Some c \<and> musicRooms (srv nt) = ms
           \<longrightarrow> snd (net_step nt (s, e, Request (Toggle_playback i)))
                 = [(chans nt i,
                     Playback_toggled (\<not> isPlaying room)
                       (if isPlaying room then playStartTime room else Some (now e)))])
     \<and> (\<forall>tr. find (\<lambda>t. track_id t = trackId) (playlist room) = Some tr
           \<longrightarrow> map_option playStartTime (map_of (fst (play_track s e_play i trackId ms)) i) = Some (Some (now e_play))
             \<and> map_option (\<lambda>r. (isPlaying r, playStartTime r))
                   (map_of (fst (toggle_playback s e_pause i (fst (play_track s e_play i trackId ms)))) i)
                 = Some (False, Some (now e_play))
             \<and> map_option (\<lambda>r. (isPlaying r, playStartTime r))
                   (map_of (fst (toggle_playback s e_resume i
                      (fst (toggle_playback s e_pause i (fst (play_track s e_play i trackId ms)))))) i)
                 = Some (True, Some (now e_resume))
             \<and> (resume_stamp_later s e_play e_pause e_resume i trackId ms \<longleftrightarrow> now e_play < now e_resume))"
proof -
  note tp = toggle_playback_occupant[OF room occ]
  have a: "map_of (fst (toggle_playback s e i ms)) i
           = Some (room\<lparr>isPlaying := \<not> isPlaying room,
                        playStartTime := (if isPlaying room then playStartTime room else Some (now e))\<rparr>)"
    by (simp add: tp map_of_map_entry room toggle_eq)
  have b: "\<forall>k. k \<noteq> i \<longrightarrow> map_of (fst (toggle_playback s e i ms)) k = map_of ms k"
    by (simp add: tp map_of_map_entry)
  have c: "snd (toggle_playback s e i ms)
           = [Io_to i (Playback_toggled (\<not> isPlaying room)
                         (if isPlaying room then playStartTime room else Some (now e)))]"
    by (simp add: tp toggle_fields)
  have n: "snd (net_step nt (s, e, Request (Toggle_playback i)))
                 = [(chans nt i,
                     Playback_toggled (\<not> isPlaying room)
                       (if isPlaying room then playStartTime room else Some (now e)))]"
    if h: "conns (srv nt) s = Some c \<and> musicRooms (srv nt) = ms" for nt c
  proof -
    obtain sv1 out where st: "step (srv nt) (s, e, Request (Toggle_playback i)) = (sv1, out)"
      by (cases "step (srv nt) (s, e, Request (Toggle_playback i))")
    from h have "snd (step (srv nt) (s, e, Request (Toggle_playback i))) = snd (toggle_playback s e i ms)"
      by (simp split: prod.splits)
    with st c have out: "out = [Io_to i (Playback_toggled (\<not> isPlaying room)
                         (if isPlaying room then playStartTime room else Some (now e)))]"
      by simp
    have "net_step nt (s, e, Request (Toggle_playback i))
        = (let (ch1, ds) = perform_all s (opened nt) out (chans nt)
           in (\<lparr>srv = sv1, chans = ch1, opened = opened nt\<rparr>, ds))"
      by (simp only: net_step.simps st Let_def prod.case)
    then show ?thesis by (simp add: out)
  qed
  have d: "map_option playStartTime (map_of (fst (play_track s e_play i trackId ms)) i) = Some (Some (now e_play))
             \<and> map_option (\<lambda>r. (isPlaying r, playStartTime r))
                   (map_of (fst (toggle_playback s e_pause i (fst (play_track s e_play i trackId ms)))) i)
                 = Some (False, Some (now e_play))
             \<and> map_option (\<lambda>r. (isPlaying r, playStartTime r))
                   (map_of (fst (toggle_playback s e_resume i
                      (fst (toggle_playback s e_pause i (fst (play_track s e_play i trackId ms)))))) i)
                 = Some (True, Some (now e_resume))
             \<and> (resume_stamp_later s e_play e_pause e_resume i trackId ms \<longleftrightarrow> now e_play < now e_resume)"
    if f: "find (\<lambda>t. track_id t = trackId) (playlist room) = Some tr" for tr
  proof -
    let ?ms1 = "fst (play_track s e_play i trackId ms)"
    let ?r1 = "room\<lparr>currentTrack := Some tr, isPlaying := True, playStartTime := Some (now e_play)\<rparr>"
    let ?ms2 = "fst (toggle_playback s e_pause i ?ms1)"
    let ?ms3 = "fst (toggle_playback s e_resume i ?ms2)"
    have m1: "map_of ?ms1 i = Some ?r1" by (rule play_track_occupant[OF room occ f])
    have o1: "s |\<in>| m_users ?r1" using occ by simp
    have m2: "map_of ?ms2 i = Some (toggle e_pause ?r1)"
      by (simp add: toggle_playback_occupant[OF m1 o1] map_of_map_entry m1)
    have o2: "s |\<in>| m_users (toggle e_pause ?r1)" using occ by (simp add: toggle_fields)
    have m3: "map_of ?ms3 i = Some (toggle e_resume (toggle e_pause ?r1))"
      by (simp add: toggle_playback_occupant[OF m2 o2] map_of_map_entry m2)
    have 1: "map_option playStartTime (map_of ?ms1 i) = Some (Some (now e_play))" by (simp add: m1)
    have 2: "map_option (\<lambda>r. (isPlaying r, playStartTime r)) (map_of ?ms2 i) = Some (False, Some (now e_play))"
      by (simp add: m2 toggle_fields)
    have 3: "map_option (\<lambda>r. (isPlaying r, playStartTime r)) (map_of ?ms3 i) = Some (True, Some (now e_resume))"
      by (simp add: m3 toggle_fields)
    have 4: "resume_stamp_later s e_play e_pause e_resume i trackId ms \<longleftrightarrow> now e_play < now e_resume"
      by (simp add: resume_stamp_later_def Let_def m1 m3 toggle_fields)
    from 1 2 3 4 show ?thesis by blast
  qed
  from a b c n d show ?thesis by blast
qed

theorem toggle_playback_flips_and_restamps_witness:
  "snd (toggle_playback ''x'' tick ''studio-1'' mstore0)
      = [Io_to ''studio-1'' (Playback_toggled True (Some 1000))]
   \<and> snd (net_step studio_net (''x'', tick, Request (Toggle_playback ''studio-1'')))
      = [({|''x''|}, Playback_toggled True (Some 1000))]
   \<and> map_option (\<lambda>r. (isPlaying r, playStartTime r))
        (map_of (fst (toggle_playback ''x'' (tick\<lparr>now := 3000\<rparr>) ''studio-1''
           (fst (toggle_playback ''x'' (tick\<lparr>now := 2000\<rparr>) ''studio-1''
              (fst (play_track ''x'' tick ''studio-1'' ''1000_trk'' mstore0)))))) ''studio-1'')
       = Some (True, Some 3000)
   \<and> resume_stamp_later ''x'' tick (tick\<lparr>now := 2000\<rparr>) (tick\<lparr>now := 3000\<rparr>) ''studio-1'' ''1000_trk'' mstore0"
proof -
  have 1: "map_of mstore0 ''studio-1'' = Some studio" by (simp add: mstore0_def)
  have 2: "''x'' |\<in>| m_users studio" by (simp add: studio_def)
  have 3: "find (\<lambda>t. track_id t = ''1000_trk'') (playlist studio) = Some song"
    by (simp add: studio_def song_def)
  have 4: "\<not> isPlaying studio" "now tick = 1000" "now (tick\<lparr>now := 3000\<rparr>) = 3000"
    by (simp_all add: studio_def tick_def)
  have 5: "conns (srv studio_net) ''x'' = Some anna \<and> musicRooms (srv studio_net) = mstore0"
    "chans studio_net ''studio-1'' = {|''x''|}"
    by (simp_all add: studio_net_def)
  note t = toggle_playback_flips_and_restamps[OF 1 2, where e = tick and e_play = tick
      and e_pause = "tick\<lparr>now := 2000\<rparr>" and e_resume = "tick\<lparr>now := 3000\<rparr>" and trackId = "''1000_trk''"]
  from t 5(1) have "snd (net_step studio_net (''x'', tick, Request (Toggle_playback ''studio-1'')))
      = [(chans studio_net ''studio-1'',
          Playback_toggled (\<not> isPlaying studio)
            (if isPlaying studio then playStartTime studio else Some (now tick)))]"
    by blast
  then have n: "snd (net_step studio_net (''x'', tick, Request (Toggle_playback ''studio-1'')))
      = [({|''x''|}, Playback_toggled True (Some 1000))]"
    using 4 5(2) by simp
  from t 3 4 have "snd (toggle_playback ''x'' tick ''studio-1'' mstore0)
      = [Io_to ''studio-1'' (Playback_toggled True (Some 1000))]
   \<and> map_option (\<lambda>r. (isPlaying r, playStartTime r))
        (map_of (fst (toggle_playback ''x'' (tick\<lparr>now := 3000\<rparr>) ''studio-1''
           (fst (toggle_playback ''x'' (tick\<lparr>now := 2000\<rparr>) ''studio-1''
              (fst (play_track ''x'' tick ''studio-1'' ''1000_trk'' mstore0)))))) ''studio-1'')
       = Some (True, Some 3000)
   \<and> resume_stamp_later ''x'' tick (tick\<lparr>now := 2000\<rparr>) (tick\<lparr>now := 3000\<rparr>) ''studio-1'' ''1000_trk'' mstore0"
    by simp
  with n show ?thesis by blast
qed

lemma jam_id: "music_room_id ''Jam'' 1000 = ''jam-1000''"
  by code_simp

text \<open>
  C9, as it is stated, fails in two ways. \<^verbatim>\<open>Date.now()\<close> counts milliseconds, and when the
  play, the pause and the resume are handled within one millisecond the two stamps are
  equal. And an occupant can be outside the channel of its music room: the connection
  \<open>x\<close> is in the room \<open>jam-1000\<close>, joins and leaves a chat room of the same name, which
  takes its socket out of the channel, and the toggle of \<open>y\<close> reaches \<open>y\<close> alone.
\<close>

theorem toggle_playback_counterexample:
  "\<not> resume_stamp_later ''x'' tick tick tick ''studio-1'' ''1000_trk'' mstore0
   \<and> map_option m_users (map_of (musicRooms (srv (fst (net_run net_init same_name_trace)))) ''jam-1000'')
       = Some {|''y'', ''x''|}
   \<and> snd (net_step (fst (net_run net_init same_name_trace)) (''y'', tick, Request (Toggle_playback ''jam-1000'')))
       = [({|''y''|}, Playback_toggled True (Some 1000))]"
proof -
  have 1: "\<not> resume_stamp_later ''x'' tick tick tick ''studio-1'' ''1000_trk'' mstore0"
    by (simp add: resume_stamp_later_def Let_def play_track_def toggle_playback_def toggle_def
          mstore0_def studio_def song_def tick_def)
  have 2: "map_option m_users (map_of (musicRooms (srv (fst (net_run net_init same_name_trace)))) ''jam-1000'')
       = Some {|''y'', ''x''|}
   \<and> snd (net_step (fst (net_run net_init same_name_trace)) (''y'', tick, Request (Toggle_playback ''jam-1000'')))
       = [({|''y''|}, Playback_toggled True (Some 1000))]"
    by (auto simp add: fcard_finsert_if fcard_fempty same_name_trace_def net_init_def init_def
          create_music_room_def join_music_room_def m_leave_previous_def create_room_def
          join_room_def leave_room_def leave_previous_def toggle_playback_def toggle_def
          music_room_entry_def or_null_num_def or_null_str_def users_size_def users_add_def
          users_delete_def m_users_size_def m_users_add_def m_users_delete_def Let_def tick_def
          jam_id)
  from 1 2 show ?thesis by blast
qed

end
